theory Spec2Isabelle
  imports Main "HOL-Library.Word" "HOL-Library.Multiset"
begin

section \<open>Data model\<close>

text \<open>
  The tracker of \<^verbatim>\<open>combat-tracker.go\<close>. Go's \<^verbatim>\<open>int\<close> is a 64-bit two's complement integer
  on the 64-bit targets; it is a \<open>64 word\<close> here, read with \<open>sint\<close>, so that \<open>+\<close>, \<open>-\<close> and
  \<open>*\<close> wrap around as they do in Go. A Go string is a sequence of bytes: \<open>string\<close>.
  A slice is a list (a \<^verbatim>\<open>nil\<close> slice and an empty one are both \<open>[]\<close>).
\<close>

type_synonym int64 = "64 word"

record Combatant =
  Name :: string
  Initiative :: int64
  MaxHP :: int64
  CurrentHP :: int64
  IsPlayer :: bool
  IsConscious :: bool
  TemporaryHP :: int64
  StatusEffects :: "string list"

text \<open>
  The tracker's own \<^verbatim>\<open>StatusEffects\<close> field (the catalog of available effects) is
  \<open>TrackerStatusEffects\<close>: a record field name cannot be used twice.
\<close>

record CombatTracker =
  Combatants :: "Combatant list"
  Round :: int64
  CurrentTurnIdx :: int64
  IsActive :: bool
  CampaignName :: string
  EncounterName :: string
  SaveFilePath :: string
  TrackerStatusEffects :: "string list"

record SaveState =
  SaveStateTracker :: CombatTracker
  SaveTime :: string
  Version :: string

text \<open>The two copies of the list \<^verbatim>\<open>defaultEffects\<close>, in \<^verbatim>\<open>NewCombatTracker\<close> and in
  \<^verbatim>\<open>LoadFromFile\<close>, are the same fifteen strings.\<close>

definition defaultEffects :: "string list" where
  "defaultEffects =
     [''Blinded'', ''Charmed'', ''Deafened'', ''Frightened'', ''Grappled'',
      ''Incapacitated'', ''Invisible'', ''Paralyzed'', ''Petrified'', ''Poisoned'',
      ''Prone'', ''Restrained'', ''Stunned'', ''Unconscious'', ''Custom Status Effect'']"

definition NewCombatTracker :: CombatTracker where
  "NewCombatTracker =
     \<lparr>Combatants = [], Round = 0, CurrentTurnIdx = - 1, IsActive = False,
      CampaignName = ''Default Campaign'', EncounterName = ''Unknown Encounter'',
      SaveFilePath = [], TrackerStatusEffects = defaultEffects\<rparr>"

section \<open>The world outside the tracker\<close>

text \<open>
  A file holds a JSON value (the text layout of \<^verbatim>\<open>json.MarshalIndent\<close> and the parser of
  \<^verbatim>\<open>json.Unmarshal\<close> are the library's; a file that does not decode into the expected shape
  is a parse error either way). \<open>writable\<close> says where \<^verbatim>\<open>ioutil.WriteFile\<close> succeeds,
  \<open>now\<close> is what \<^verbatim>\<open>time.Now().Format(time.RFC3339)\<close> returns. \<open>console\<close> keeps, of
  what the tracker prints, the reports of a refused operation and the notices of a save;
  the announcements, the confirmations and the state display are left out.
\<close>

datatype json =
  JNull | JBool bool | JNum int | JStr string | JArr "json list" | JObj "(string \<times> json) list"

datatype error = ReadError | ParseError | WriteError

datatype panic = IndexOutOfRange

datatype line =
  InvalidIndex
  | NoCombatants
  | NotStarted
  | NoActiveCombat
  | NotAffected string string
  | Saved string
  | AutoSaveFailed error
  | InvalidNumberEntered
  | InvalidCombatantIndex
  | InvalidNumberOfCopies

record world =
  tracker :: CombatTracker
  disk :: "string \<Rightarrow> json option"
  writable :: "string \<Rightarrow> bool"
  now :: string
  console :: "line list"

definition say :: "line \<Rightarrow> world \<Rightarrow> world" where
  "say l w = w\<lparr>console := console w @ [l]\<rparr>"

section \<open>Persistence\<close>

subsection \<open>Strings in JSON\<close>

text \<open>
  \<^verbatim>\<open>encoding/json\<close> writes a string coerced to valid UTF-8: every byte that does not start
  a valid encoding is replaced by U+FFFD, which reads back as the bytes EF BF BD.
  \<open>rune_len\<close> is the length of the valid encoding at the head of a string, 0 when there
  is none (the ranges are those of \<^verbatim>\<open>unicode/utf8\<close>).
\<close>

definition byte :: "char \<Rightarrow> nat" where
  "byte c = of_char c"

definition cont :: "char \<Rightarrow> bool" where
  "cont c = (128 \<le> byte c \<and> byte c \<le> 191)"

definition second_ok :: "nat \<Rightarrow> char \<Rightarrow> bool" where
  "second_ok b c =
     (if b = 224 then 160 \<le> byte c \<and> byte c \<le> 191
      else if b = 237 then 128 \<le> byte c \<and> byte c \<le> 159
      else if b = 240 then 144 \<le> byte c \<and> byte c \<le> 191
      else if b = 244 then 128 \<le> byte c \<and> byte c \<le> 143
      else cont c)"

fun rune_len :: "string \<Rightarrow> nat" where
  "rune_len [] = 0"
| "rune_len (c # cs) =
     (if byte c < 128 then 1
      else if 194 \<le> byte c \<and> byte c \<le> 223 then
        (case cs of c1 # _ \<Rightarrow> if cont c1 then 2 else 0 | _ \<Rightarrow> 0)
      else if 224 \<le> byte c \<and> byte c \<le> 239 then
        (case cs of c1 # c2 # _ \<Rightarrow> if second_ok (byte c) c1 \<and> cont c2 then 3 else 0 | _ \<Rightarrow> 0)
      else if 240 \<le> byte c \<and> byte c \<le> 244 then
        (case cs of c1 # c2 # c3 # _ \<Rightarrow>
           if second_ok (byte c) c1 \<and> cont c2 \<and> cont c3 then 4 else 0 | _ \<Rightarrow> 0)
      else 0)"

definition replacement :: string where
  "replacement = [CHR 0xEF, CHR 0xBF, CHR 0xBD]"

function coerce_utf8 :: "string \<Rightarrow> string" where
  "coerce_utf8 [] = []"
| "coerce_utf8 (c # cs) =
     (if rune_len (c # cs) = 0 then replacement @ coerce_utf8 cs
      else take (rune_len (c # cs)) (c # cs) @ coerce_utf8 (drop (rune_len (c # cs)) (c # cs)))"
  by pat_completeness auto
termination
  by (relation "measure length") (auto simp del: rune_len.simps)

function valid_utf8 :: "string \<Rightarrow> bool" where
  "valid_utf8 [] = True"
| "valid_utf8 (c # cs) =
     (if rune_len (c # cs) = 0 then False
      else valid_utf8 (drop (rune_len (c # cs)) (c # cs)))"
  by pat_completeness auto
termination
  by (relation "measure length") (auto simp del: rune_len.simps)

declare rune_len.simps [simp del] coerce_utf8.simps [simp del] valid_utf8.simps [simp del]

subsection \<open>Marshalling\<close>

text \<open>
  What \<^verbatim>\<open>json.Marshal\<close> makes of the three structs, following their field tags:
  \<^verbatim>\<open>SaveFilePath\<close> is tagged \<^verbatim>\<open>json:"-"\<close> and is left out. None of these types can make
  \<^verbatim>\<open>json.Marshal\<close> fail, so the branch "error creating JSON" of \<^verbatim>\<open>SaveToFile\<close> is never taken.
\<close>

definition Marshal_strings :: "string list \<Rightarrow> json" where
  "Marshal_strings xs = JArr (map (\<lambda>s. JStr (coerce_utf8 s)) xs)"

definition Marshal_Combatant :: "Combatant \<Rightarrow> json" where
  "Marshal_Combatant c =
     JObj [(''name'', JStr (coerce_utf8 (Name c))),
           (''initiative'', JNum (sint (Initiative c))),
           (''maxHP'', JNum (sint (MaxHP c))),
           (''currentHP'', JNum (sint (CurrentHP c))),
           (''isPlayer'', JBool (IsPlayer c)),
           (''isConscious'', JBool (IsConscious c)),
           (''temporaryHP'', JNum (sint (TemporaryHP c))),
           (''statusEffects'', Marshal_strings (StatusEffects c))]"

definition Marshal_CombatTracker :: "CombatTracker \<Rightarrow> json" where
  "Marshal_CombatTracker ct =
     JObj [(''combatants'', JArr (map Marshal_Combatant (Combatants ct))),
           (''round'', JNum (sint (Round ct))),
           (''currentTurnIdx'', JNum (sint (CurrentTurnIdx ct))),
           (''isActive'', JBool (IsActive ct)),
           (''campaignName'', JStr (coerce_utf8 (CampaignName ct))),
           (''encounterName'', JStr (coerce_utf8 (EncounterName ct))),
           (''statusEffects'', Marshal_strings (TrackerStatusEffects ct))]"

definition Marshal_SaveState :: "SaveState \<Rightarrow> json" where
  "Marshal_SaveState st =
     JObj [(''combatTracker'', Marshal_CombatTracker (SaveStateTracker st)),
           (''saveTime'', JStr (coerce_utf8 (SaveTime st))),
           (''version'', JStr (coerce_utf8 (Version st)))]"

subsection \<open>Unmarshalling\<close>

text \<open>
  \<^verbatim>\<open>json.Unmarshal\<close> decodes into a variable that holds a value already (in \<^verbatim>\<open>LoadFromFile\<close>
  the zero \<^verbatim>\<open>SaveState\<close>), key by key in the order of the file:

  \<^item> a key stands for the field whose tag equals it up to letter case, as \<^verbatim>\<open>bytes.EqualFold\<close>
    has it (besides the two cases of a letter, the Kelvin sign U+212A folds with \<^verbatim>\<open>k\<close> and
    the long s U+017F with \<^verbatim>\<open>s\<close>); a key that stands for no field is skipped;
  \<^item> a key that comes again is decoded into the field as the earlier one left it;
  \<^item> \<^verbatim>\<open>null\<close> leaves a number, a boolean, a string and a struct as they are, and makes a
    slice \<^verbatim>\<open>nil\<close>;
  \<^item> an array is decoded element by element into the elements of the slice, the ones it
    shows and the ones that an earlier, longer array under the same key left behind them in
    its backing array, and into zero values after these; an empty array gives a new slice;
  \<^item> a value of the wrong kind, or a number outside the range of \<^verbatim>\<open>int\<close>, is an error.
\<close>

function foldName :: "string \<Rightarrow> string" where
  "foldName [] = []"
| "foldName (c # cs) =
     (if 97 \<le> byte c \<and> byte c \<le> 122 then char_of (byte c - 32) # foldName cs
      else if c = CHR 0xE2 \<and> take 2 cs = [CHR 0x84, CHR 0xAA] then CHR ''K'' # foldName (drop 2 cs)
      else if c = CHR 0xC5 \<and> take 1 cs = [CHR 0xBF] then CHR ''S'' # foldName (drop 1 cs)
      else c # foldName cs)"
  by pat_completeness auto
termination
  by (relation "measure length") auto

definition tagged :: "string \<Rightarrow> string \<Rightarrow> bool" where
  "tagged tag key = (foldName key = foldName tag)"

fun decode_int :: "json \<Rightarrow> int64 \<Rightarrow> int64 option" where
  "decode_int JNull old = Some old"
| "decode_int (JNum n) old =
     (if - (2 ^ 63) \<le> n \<and> n < 2 ^ 63 then Some (word_of_int n) else None)"
| "decode_int _ old = None"

fun decode_bool :: "json \<Rightarrow> bool \<Rightarrow> bool option" where
  "decode_bool JNull old = Some old"
| "decode_bool (JBool b) old = Some b"
| "decode_bool _ old = None"

fun decode_string :: "json \<Rightarrow> string \<Rightarrow> string option" where
  "decode_string JNull old = Some old"
| "decode_string (JStr s) old = Some s"
| "decode_string _ old = None"

text \<open>
  A slice under decoding is the list it shows and the list of the elements behind it in the
  backing array. \<open>decode_elements f z js held\<close> decodes the values \<open>js\<close> into the elements
  \<open>held\<close> one by one, and into the zero value \<open>z\<close> when these run out.
\<close>

fun decode_elements :: "(json \<Rightarrow> 'a \<Rightarrow> 'a option) \<Rightarrow> 'a \<Rightarrow> json list \<Rightarrow> 'a list \<Rightarrow> 'a list option" where
  "decode_elements f z [] held = Some []"
| "decode_elements f z (j # js) held =
     (case f j (case held of [] \<Rightarrow> z | h # _ \<Rightarrow> h) of
        None \<Rightarrow> None
      | Some x \<Rightarrow> map_option ((#) x) (decode_elements f z js (tl held)))"

fun decode_slice ::
  "(json \<Rightarrow> 'a \<Rightarrow> 'a option) \<Rightarrow> 'a \<Rightarrow> json \<Rightarrow> 'a list \<times> 'a list \<Rightarrow> ('a list \<times> 'a list) option" where
  "decode_slice f z JNull s = Some ([], [])"
| "decode_slice f z (JArr js) s =
     (if js = [] then Some ([], [])
      else map_option (\<lambda>xs. (xs, drop (length js) (fst s @ snd s)))
             (decode_elements f z js (fst s @ snd s)))"
| "decode_slice f z _ s = None"

fun decode_object :: "(string \<Rightarrow> json \<Rightarrow> 's \<Rightarrow> 's option) \<Rightarrow> (string \<times> json) list \<Rightarrow> 's \<Rightarrow> 's option" where
  "decode_object f [] s = Some s"
| "decode_object f (kv # kvs) s =
     (case f (fst kv) (snd kv) s of None \<Rightarrow> None | Some s' \<Rightarrow> decode_object f kvs s')"

definition zero_Combatant :: Combatant where
  "zero_Combatant =
     \<lparr>Name = [], Initiative = 0, MaxHP = 0, CurrentHP = 0, IsPlayer = False,
      IsConscious = False, TemporaryHP = 0, StatusEffects = []\<rparr>"

definition zero_CombatTracker :: CombatTracker where
  "zero_CombatTracker =
     \<lparr>Combatants = [], Round = 0, CurrentTurnIdx = 0, IsActive = False, CampaignName = [],
      EncounterName = [], SaveFilePath = [], TrackerStatusEffects = []\<rparr>"

text \<open>
  A \<^verbatim>\<open>Combatant\<close> under decoding comes with the strings behind its \<^verbatim>\<open>StatusEffects\<close>.
\<close>

type_synonym Combatant_held = "Combatant \<times> string list"

definition decode_Combatant_field :: "string \<Rightarrow> json \<Rightarrow> Combatant_held \<Rightarrow> Combatant_held option" where
  "decode_Combatant_field key v h =
     (let c = fst h in
      if tagged ''name'' key then
        map_option (\<lambda>x. (c\<lparr>Name := x\<rparr>, snd h)) (decode_string v (Name c))
      else if tagged ''initiative'' key then
        map_option (\<lambda>x. (c\<lparr>Initiative := x\<rparr>, snd h)) (decode_int v (Initiative c))
      else if tagged ''maxHP'' key then
        map_option (\<lambda>x. (c\<lparr>MaxHP := x\<rparr>, snd h)) (decode_int v (MaxHP c))
      else if tagged ''currentHP'' key then
        map_option (\<lambda>x. (c\<lparr>CurrentHP := x\<rparr>, snd h)) (decode_int v (CurrentHP c))
      else if tagged ''isPlayer'' key then
        map_option (\<lambda>x. (c\<lparr>IsPlayer := x\<rparr>, snd h)) (decode_bool v (IsPlayer c))
      else if tagged ''isConscious'' key then
        map_option (\<lambda>x. (c\<lparr>IsConscious := x\<rparr>, snd h)) (decode_bool v (IsConscious c))
      else if tagged ''temporaryHP'' key then
        map_option (\<lambda>x. (c\<lparr>TemporaryHP := x\<rparr>, snd h)) (decode_int v (TemporaryHP c))
      else if tagged ''statusEffects'' key then
        map_option (\<lambda>s. (c\<lparr>StatusEffects := fst s\<rparr>, snd s))
          (decode_slice decode_string [] v (StatusEffects c, snd h))
      else Some h)"

fun decode_Combatant :: "json \<Rightarrow> Combatant_held \<Rightarrow> Combatant_held option" where
  "decode_Combatant JNull h = Some h"
| "decode_Combatant (JObj kvs) h = decode_object decode_Combatant_field kvs h"
| "decode_Combatant _ h = None"

text \<open>
  A \<^verbatim>\<open>CombatTracker\<close> under decoding: \<open>Decoded\<close> has the fields decoded so far, its
  \<^verbatim>\<open>Combatants\<close> apart, which are in \<open>Roster\<close> as a slice under decoding; \<open>Catalog_behind\<close>
  are the strings behind the catalog.
\<close>

record CombatTracker_held =
  Decoded :: CombatTracker
  Roster :: "Combatant_held list \<times> Combatant_held list"
  Catalog_behind :: "string list"

definition decode_CombatTracker_field ::
  "string \<Rightarrow> json \<Rightarrow> CombatTracker_held \<Rightarrow> CombatTracker_held option" where
  "decode_CombatTracker_field key v h =
     (let ct = Decoded h in
      if tagged ''combatants'' key then
        map_option (\<lambda>s. h\<lparr>Roster := s\<rparr>)
          (decode_slice decode_Combatant (zero_Combatant, []) v (Roster h))
      else if tagged ''round'' key then
        map_option (\<lambda>x. h\<lparr>Decoded := ct\<lparr>Round := x\<rparr>\<rparr>) (decode_int v (Round ct))
      else if tagged ''currentTurnIdx'' key then
        map_option (\<lambda>x. h\<lparr>Decoded := ct\<lparr>CurrentTurnIdx := x\<rparr>\<rparr>)
          (decode_int v (CurrentTurnIdx ct))
      else if tagged ''isActive'' key then
        map_option (\<lambda>x. h\<lparr>Decoded := ct\<lparr>IsActive := x\<rparr>\<rparr>) (decode_bool v (IsActive ct))
      else if tagged ''campaignName'' key then
        map_option (\<lambda>x. h\<lparr>Decoded := ct\<lparr>CampaignName := x\<rparr>\<rparr>)
          (decode_string v (CampaignName ct))
      else if tagged ''encounterName'' key then
        map_option (\<lambda>x. h\<lparr>Decoded := ct\<lparr>EncounterName := x\<rparr>\<rparr>)
          (decode_string v (EncounterName ct))
      else if tagged ''statusEffects'' key then
        map_option (\<lambda>s. h\<lparr>Decoded := ct\<lparr>TrackerStatusEffects := fst s\<rparr>, Catalog_behind := snd s\<rparr>)
          (decode_slice decode_string [] v (TrackerStatusEffects ct, Catalog_behind h))
      else Some h)"

fun decode_CombatTracker :: "json \<Rightarrow> CombatTracker_held \<Rightarrow> CombatTracker_held option" where
  "decode_CombatTracker JNull h = Some h"
| "decode_CombatTracker (JObj kvs) h = decode_object decode_CombatTracker_field kvs h"
| "decode_CombatTracker _ h = None"

record SaveState_held =
  Tracker_held :: CombatTracker_held
  Time_held :: string
  Version_held :: string

definition decode_SaveState_field :: "string \<Rightarrow> json \<Rightarrow> SaveState_held \<Rightarrow> SaveState_held option" where
  "decode_SaveState_field key v h =
     (if tagged ''combatTracker'' key then
        map_option (\<lambda>x. h\<lparr>Tracker_held := x\<rparr>) (decode_CombatTracker v (Tracker_held h))
      else if tagged ''saveTime'' key then
        map_option (\<lambda>x. h\<lparr>Time_held := x\<rparr>) (decode_string v (Time_held h))
      else if tagged ''version'' key then
        map_option (\<lambda>x. h\<lparr>Version_held := x\<rparr>) (decode_string v (Version_held h))
      else Some h)"

fun decode_SaveState :: "json \<Rightarrow> SaveState_held \<Rightarrow> SaveState_held option" where
  "decode_SaveState JNull h = Some h"
| "decode_SaveState (JObj kvs) h = decode_object decode_SaveState_field kvs h"
| "decode_SaveState _ h = None"

text \<open>What the program sees of the decoded value: the slices without what is behind them.\<close>

definition shown_CombatTracker :: "CombatTracker_held \<Rightarrow> CombatTracker" where
  "shown_CombatTracker h = (Decoded h)\<lparr>Combatants := map fst (fst (Roster h))\<rparr>"

definition shown_SaveState :: "SaveState_held \<Rightarrow> SaveState" where
  "shown_SaveState h =
     \<lparr>SaveStateTracker = shown_CombatTracker (Tracker_held h), SaveTime = Time_held h,
      Version = Version_held h\<rparr>"

definition zero_SaveState_held :: SaveState_held where
  "zero_SaveState_held =
     \<lparr>Tracker_held = \<lparr>Decoded = zero_CombatTracker, Roster = ([], []), Catalog_behind = []\<rparr>,
      Time_held = [], Version_held = []\<rparr>"

text \<open>\<^verbatim>\<open>var saveState SaveState; err = json.Unmarshal(data, &saveState)\<close>\<close>

definition Unmarshal_SaveState :: "json \<Rightarrow> SaveState option" where
  "Unmarshal_SaveState data = map_option shown_SaveState (decode_SaveState data zero_SaveState_held)"


subsection \<open>Saving and loading\<close>

definition SaveToFile :: "string \<Rightarrow> world \<Rightarrow> error option \<times> world" where
  "SaveToFile filename w =
     (let saveState = \<lparr>SaveStateTracker = tracker w, SaveTime = now w, Version = ''1.0.0''\<rparr>;
          jsonData = Marshal_SaveState saveState
      in if \<not> writable w filename then (Some WriteError, w)
         else (None, say (Saved filename) (w\<lparr>disk := (disk w)(filename \<mapsto> jsonData)\<rparr>)))"

definition AutoSave :: "world \<Rightarrow> world" where
  "AutoSave w =
     (if SaveFilePath (tracker w) = [] then w
      else (case SaveToFile (SaveFilePath (tracker w)) w of
              (None, w') \<Rightarrow> w'
            | (Some err, w') \<Rightarrow> say (AutoSaveFailed err) w'))"

definition LoadFromFile :: "string \<Rightarrow> world \<Rightarrow> error + CombatTracker" where
  "LoadFromFile filename w =
     (case disk w filename of
        None \<Rightarrow> Inl ReadError
      | Some data \<Rightarrow>
         (case Unmarshal_SaveState data of
            None \<Rightarrow> Inl ParseError
          | Some saveState \<Rightarrow>
              (let ct = (SaveStateTracker saveState)\<lparr>SaveFilePath := filename\<rparr>
               in if length (TrackerStatusEffects ct) = 0
                  then Inr (ct\<lparr>TrackerStatusEffects := defaultEffects\<rparr>)
                  else Inr ct)))"

text \<open>An operation that has changed the tracker ends with \<^verbatim>\<open>ct.AutoSave()\<close>.\<close>

definition commit :: "CombatTracker \<Rightarrow> world \<Rightarrow> world" where
  "commit ct w = AutoSave (w\<lparr>tracker := ct\<rparr>)"

section \<open>The operations of the tracker\<close>

text \<open>
  The test \<^verbatim>\<open>index < 0 || index >= len(ct.Combatants)\<close> that opens every operation taking
  an index, and the element \<^verbatim>\<open>ct.Combatants[index]\<close> once the test has passed.
\<close>

definition bad_index :: "int64 \<Rightarrow> 'a list \<Rightarrow> bool" where
  "bad_index index xs = (sint index < 0 \<or> sint index \<ge> int (length xs))"

definition pos :: "int64 \<Rightarrow> nat" where
  "pos index = nat (sint index)"

definition AddCombatant :: "string \<Rightarrow> int64 \<Rightarrow> int64 \<Rightarrow> bool \<Rightarrow> world \<Rightarrow> world" where
  "AddCombatant name initiative maxHP isPlayer w =
     (let combatant = \<lparr>Name = name, Initiative = initiative, MaxHP = maxHP, CurrentHP = maxHP,
                        IsPlayer = isPlayer, IsConscious = True, TemporaryHP = 0,
                        StatusEffects = []\<rparr>
      in commit ((tracker w)\<lparr>Combatants := Combatants (tracker w) @ [combatant]\<rparr>) w)"

subsection \<open>Sorting\<close>

text \<open>
  \<^verbatim>\<open>SortByInitiative\<close> calls \<^verbatim>\<open>sort.Slice\<close> with the comparison
  \<^verbatim>\<open>ct.Combatants[i].Initiative > ct.Combatants[j].Initiative\<close>. The library promises a
  rearrangement of the slice in the order of the comparison and says that the sort is not
  guaranteed to be stable; which rearrangement it returns is the library's choice, and the
  algorithm behind it has changed between releases of Go. The operations that sort take
  the library function as their first argument, and \<open>sort_Slice_ok\<close> is what the library
  promises of it for this comparison.
\<close>

definition higher_initiative :: "Combatant \<Rightarrow> Combatant \<Rightarrow> bool" where
  "higher_initiative a b = (sint (Initiative a) > sint (Initiative b))"

type_synonym slice_sort = "(Combatant \<Rightarrow> Combatant \<Rightarrow> bool) \<Rightarrow> Combatant list \<Rightarrow> Combatant list"

definition sort_Slice_ok :: "slice_sort \<Rightarrow> bool" where
  "sort_Slice_ok srt =
     (\<forall>xs. mset (srt higher_initiative xs) = mset xs \<and>
           sorted_wrt (\<lambda>a b. \<not> higher_initiative b a) (srt higher_initiative xs))"

definition SortByInitiative :: "slice_sort \<Rightarrow> CombatTracker \<Rightarrow> CombatTracker" where
  "SortByInitiative srt ct = ct\<lparr>Combatants := srt higher_initiative (Combatants ct)\<rparr>"

text \<open>
  A function that keeps the library's promise: \<open>insertionSort\<close>, an insertion sort that
  puts each element behind its equals.
\<close>

fun insert_by :: "('a \<Rightarrow> 'a \<Rightarrow> bool) \<Rightarrow> 'a \<Rightarrow> 'a list \<Rightarrow> 'a list" where
  "insert_by lessf x [] = [x]"
| "insert_by lessf x (y # ys) = (if lessf x y then x # y # ys else y # insert_by lessf x ys)"

definition insertionSort :: "('a \<Rightarrow> 'a \<Rightarrow> bool) \<Rightarrow> 'a list \<Rightarrow> 'a list" where
  "insertionSort lessf xs = foldl (\<lambda>ys x. insert_by lessf x ys) [] xs"

subsection \<open>Combat\<close>

text \<open>
  \<^verbatim>\<open>StartCombat\<close> and \<^verbatim>\<open>NextTurn\<close> read \<^verbatim>\<open>ct.Combatants[ct.CurrentTurnIdx].Name\<close> for the
  turn announcement; out of range, that read panics.
\<close>

definition StartCombat :: "slice_sort \<Rightarrow> world \<Rightarrow> panic + world" where
  "StartCombat srt w =
     (if length (Combatants (tracker w)) = 0 then Inr (say NoCombatants w)
      else (let ct = (SortByInitiative srt (tracker w))
                       \<lparr>Round := 1, CurrentTurnIdx := 0, IsActive := True\<rparr>
            in if bad_index (CurrentTurnIdx ct) (Combatants ct) then Inl IndexOutOfRange
               else Inr (commit ct w)))"

definition NextTurn :: "world \<Rightarrow> panic + world" where
  "NextTurn w =
     (if \<not> IsActive (tracker w) then Inr (say NotStarted w)
      else (let ct0 = (tracker w)\<lparr>CurrentTurnIdx := CurrentTurnIdx (tracker w) + 1\<rparr>;
                ct = (if sint (CurrentTurnIdx ct0) \<ge> int (length (Combatants ct0))
                      then ct0\<lparr>Round := Round ct0 + 1, CurrentTurnIdx := 0\<rparr>
                      else ct0)
            in if bad_index (CurrentTurnIdx ct) (Combatants ct) then Inl IndexOutOfRange
               else Inr (commit ct w)))"

definition EndCombat :: "world \<Rightarrow> world" where
  "EndCombat w =
     (if \<not> IsActive (tracker w) then say NoActiveCombat w
      else commit ((tracker w)\<lparr>IsActive := False\<rparr>) w)"

subsection \<open>Hit points\<close>

text \<open>What \<^verbatim>\<open>AdjustHP\<close> does to the combatant \<^verbatim>\<open>c := &ct.Combatants[index]\<close>.\<close>

definition adjust :: "int64 \<Rightarrow> Combatant \<Rightarrow> Combatant" where
  "adjust amount c =
     (if sint amount < 0 then
        (let damage = - amount;
             (temp, damage) =
                (if sint (TemporaryHP c) > 0 then
                   (if sint damage \<le> sint (TemporaryHP c)
                    then (TemporaryHP c - damage, 0)
                    else (0, damage - TemporaryHP c))
                 else (TemporaryHP c, damage));
             hp = (if sint damage > 0 then CurrentHP c - damage else CurrentHP c)
         in if sint hp \<le> 0
            then c\<lparr>CurrentHP := 0, IsConscious := False, TemporaryHP := temp\<rparr>
            else c\<lparr>CurrentHP := hp, TemporaryHP := temp\<rparr>)
      else
        (let hp0 = CurrentHP c + amount;
             hp = (if sint hp0 > sint (MaxHP c) then MaxHP c else hp0)
         in if \<not> IsConscious c \<and> sint hp > 0
            then c\<lparr>CurrentHP := hp, IsConscious := True\<rparr>
            else c\<lparr>CurrentHP := hp\<rparr>))"

definition AdjustHP :: "int64 \<Rightarrow> int64 \<Rightarrow> world \<Rightarrow> world" where
  "AdjustHP index amount w =
     (if bad_index index (Combatants (tracker w)) then say InvalidIndex w
      else (let cs = Combatants (tracker w)
            in commit ((tracker w)\<lparr>Combatants := cs[pos index := adjust amount (cs ! pos index)]\<rparr>) w))"

definition AddTemporaryHP :: "int64 \<Rightarrow> int64 \<Rightarrow> world \<Rightarrow> world" where
  "AddTemporaryHP index amount w =
     (if bad_index index (Combatants (tracker w)) then say InvalidIndex w
      else (let cs = Combatants (tracker w);
                c = cs ! pos index;
                c' = (if sint amount > sint (TemporaryHP c) then c\<lparr>TemporaryHP := amount\<rparr> else c)
            in commit ((tracker w)\<lparr>Combatants := cs[pos index := c']\<rparr>) w))"

subsection \<open>Status effects\<close>

definition AddStatusEffect :: "int64 \<Rightarrow> string \<Rightarrow> world \<Rightarrow> world" where
  "AddStatusEffect index effect w =
     (if bad_index index (Combatants (tracker w)) then say InvalidIndex w
      else (let cs = Combatants (tracker w);
                c = cs ! pos index
            in commit ((tracker w)\<lparr>Combatants :=
                 cs[pos index := c\<lparr>StatusEffects := StatusEffects c @ [effect]\<rparr>]\<rparr>) w))"

fun first_match :: "string \<Rightarrow> string list \<Rightarrow> nat option" where
  "first_match effect [] = None"
| "first_match effect (e # es) =
     (if e = effect then Some 0 else map_option Suc (first_match effect es))"

definition RemoveStatusEffect :: "int64 \<Rightarrow> string \<Rightarrow> world \<Rightarrow> world" where
  "RemoveStatusEffect index effect w =
     (if bad_index index (Combatants (tracker w)) then say InvalidIndex w
      else (let cs = Combatants (tracker w);
                c = cs ! pos index
            in case first_match effect (StatusEffects c) of
                 Some i \<Rightarrow>
                   commit ((tracker w)\<lparr>Combatants :=
                     cs[pos index := c\<lparr>StatusEffects :=
                          butlast ((StatusEffects c)[i := last (StatusEffects c)])\<rparr>]\<rparr>) w
               | None \<Rightarrow> say (NotAffected (Name c) effect) w))"

subsection \<open>Details, duplicates, initiative\<close>

definition SetEncounterDetails :: "string \<Rightarrow> string \<Rightarrow> world \<Rightarrow> world" where
  "SetEncounterDetails campaignName encounterName w =
     commit ((tracker w)\<lparr>CampaignName := campaignName, EncounterName := encounterName\<rparr>) w"

definition is_digit :: "char \<Rightarrow> bool" where
  "is_digit c = (byte CHR ''0'' \<le> byte c \<and> byte c \<le> byte CHR ''9'')"

text \<open>
  The loop of \<^verbatim>\<open>DuplicateCombatant\<close> over the name, from its last byte down to the first
  byte that is not a digit: \<open>scan_digits\<close> takes the name reversed.
\<close>

fun scan_digits :: "string \<Rightarrow> int64 \<Rightarrow> int64" where
  "scan_digits [] lastNumber = lastNumber"
| "scan_digits (c # cs) lastNumber =
     (if is_digit c
      then scan_digits cs (lastNumber * 10 + of_nat (byte c - byte CHR ''0''))
      else lastNumber)"

definition TrimRight_digits :: "string \<Rightarrow> string" where
  "TrimRight_digits s = rev (dropWhile is_digit (rev s))"

text \<open>The verb \<^verbatim>\<open>%d\<close> of \<^verbatim>\<open>fmt.Sprintf\<close>.\<close>

fun decimal :: "nat \<Rightarrow> string" where
  "decimal n =
     (if n < 10 then [char_of (byte CHR ''0'' + n)]
      else decimal (n div 10) @ [char_of (byte CHR ''0'' + n mod 10)])"

definition Sprintf_d :: "int64 \<Rightarrow> string" where
  "Sprintf_d n = (if sint n < 0 then CHR ''-'' # decimal (nat (- sint n)) else decimal (nat (sint n)))"

definition DuplicateCombatant :: "int64 \<Rightarrow> int64 \<Rightarrow> world \<Rightarrow> world" where
  "DuplicateCombatant index count_n w =
     (if bad_index index (Combatants (tracker w)) then say InvalidIndex w
      else (let original = Combatants (tracker w) ! pos index;
                lastNumber = (if length (Name original) > 0
                              then scan_digits (rev (Name original)) 0 else 0);
                baseName = (if length (Name original) > 0 \<and> sint lastNumber > 0
                            then TrimRight_digits (Name original) else Name original);
                copy = (\<lambda>i. \<lparr>Name = baseName @ Sprintf_d (lastNumber + of_nat i + 1),
                              Initiative = Initiative original, MaxHP = MaxHP original,
                              CurrentHP = MaxHP original, IsPlayer = IsPlayer original,
                              IsConscious = True, TemporaryHP = 0, StatusEffects = []\<rparr>)
            in commit ((tracker w)\<lparr>Combatants :=
                 Combatants (tracker w) @ map copy [0 ..< nat (sint count_n)]\<rparr>) w))"

definition ChangeInitiative :: "slice_sort \<Rightarrow> int64 \<Rightarrow> int64 \<Rightarrow> world \<Rightarrow> world" where
  "ChangeInitiative srt index newInitiative w =
     (if bad_index index (Combatants (tracker w)) then say InvalidIndex w
      else (let cs = Combatants (tracker w);
                ct = (tracker w)\<lparr>Combatants :=
                        cs[pos index := (cs ! pos index)\<lparr>Initiative := newInitiative\<rparr>]\<rparr>
            in commit (if IsActive ct then SortByInitiative srt ct else ct) w))"

section \<open>The menu\<close>

text \<open>
  \<^verbatim>\<open>DuplicateCombatant\<close> has one caller, \<^verbatim>\<open>handleDuplicateCombatant\<close>, which reads the number
  of the combatant and the number of copies from the terminal, a line each.

  \<^verbatim>\<open>strconv.Atoi\<close>: an optional sign, then decimal digits, at least one, and nothing else;
  the number has to be in the range of \<^verbatim>\<open>int\<close>.
\<close>

definition Atoi :: "string \<Rightarrow> int64 option" where
  "Atoi s =
     (let signed = (s \<noteq> [] \<and> (hd s = CHR ''+'' \<or> hd s = CHR ''-''));
          digits = (if signed then tl s else s);
          n = foldl (\<lambda>a c. a * 10 + int (byte c - byte CHR ''0'')) 0 digits;
          v = (if signed \<and> hd s = CHR ''-'' then - n else n)
      in if digits = [] \<or> \<not> list_all is_digit digits then None
         else if - (2 ^ 63) \<le> v \<and> v < 2 ^ 63 then Some (word_of_int v)
         else None)"

text \<open>
  \<^verbatim>\<open>getCurrentOrSelectedIndex\<close>, given the line that was typed. It first prints the name of
  the current combatant, \<^verbatim>\<open>ct.Combatants[ct.CurrentTurnIdx]\<close>, when combat is active and the
  index is not negative: a panic when the index is past the end. The result is the error
  that the caller prints, or the index.
\<close>

definition getCurrentOrSelectedIndex :: "CombatTracker \<Rightarrow> string \<Rightarrow> panic + (line + int64)" where
  "getCurrentOrSelectedIndex ct indexStr =
     (let current = (IsActive ct \<and> 0 \<le> sint (CurrentTurnIdx ct));
          validated = (\<lambda>index. if bad_index index (Combatants ct)
                                then Inl InvalidCombatantIndex else Inr index)
      in if current \<and> bad_index (CurrentTurnIdx ct) (Combatants ct) then Inl IndexOutOfRange
         else if indexStr = [] \<and> current then Inr (validated (CurrentTurnIdx ct))
         else (case Atoi indexStr of
                 None \<Rightarrow> Inr (Inl InvalidNumberEntered)
               | Some index \<Rightarrow> Inr (validated (index - 1))))"

definition handleDuplicateCombatant :: "string \<Rightarrow> string \<Rightarrow> world \<Rightarrow> panic + world" where
  "handleDuplicateCombatant indexStr countStr w =
     (case getCurrentOrSelectedIndex (tracker w) indexStr of
        Inl p \<Rightarrow> Inl p
      | Inr (Inl err) \<Rightarrow> Inr (say err w)
      | Inr (Inr index) \<Rightarrow>
          (case Atoi countStr of
             None \<Rightarrow> Inr (say InvalidNumberOfCopies w)
           | Some count_n \<Rightarrow>
               if sint count_n < 1 then Inr (say InvalidNumberOfCopies w)
               else Inr (DuplicateCombatant index count_n w)))"

section \<open>Properties of trackers and of runs\<close>

text \<open>Calling \<^verbatim>\<open>NextTurn\<close> a number of times in a row; a panic ends the run.\<close>

fun NextTurns :: "nat \<Rightarrow> world \<Rightarrow> panic + world" where
  "NextTurns 0 w = Inr w"
| "NextTurns (Suc n) w = (case NextTurn w of Inl p \<Rightarrow> Inl p | Inr w' \<Rightarrow> NextTurns n w')"

text \<open>The bounds on current hit points: \<open>0 \<le> currentHP \<le> maxHP\<close>.\<close>

definition hp_ok :: "Combatant \<Rightarrow> bool" where
  "hp_ok c = (0 \<le> sint (CurrentHP c) \<and> sint (CurrentHP c) \<le> sint (MaxHP c))"

text \<open>
  The states the tracker can be in. \<open>engine_step\<close> is one operation of the tracker, or
  something that happens around it: the world outside the tracker changes (time passes,
  files are written by hand), or \<^verbatim>\<open>main\<close> sets the save path (after a save on request, or
  when the file named on the command line cannot be loaded). A slice has fewer than
  \<open>2 ^ 63\<close> elements, its length being an \<^verbatim>\<open>int\<close>: \<^verbatim>\<open>append\<close> does not return when the
  new length would not fit, so the operations that append are steps only below that length.
  \<open>engine_reachable\<close> starts from a fresh tracker; \<open>reachable\<close> also allows a tracker
  loaded from a file.
\<close>

inductive engine_step :: "world \<Rightarrow> world \<Rightarrow> bool" where
  step_AddCombatant:
    "int (length (Combatants (tracker w))) + 1 < 2 ^ 63 \<Longrightarrow>
     engine_step w (AddCombatant name initiative maxHP isPlayer w)"
| step_StartCombat:
    "sort_Slice_ok srt \<Longrightarrow> StartCombat srt w = Inr w' \<Longrightarrow> engine_step w w'"
| step_NextTurn:
    "NextTurn w = Inr w' \<Longrightarrow> engine_step w w'"
| step_AdjustHP:
    "engine_step w (AdjustHP index amount w)"
| step_AddTemporaryHP:
    "engine_step w (AddTemporaryHP index amount w)"
| step_AddStatusEffect:
    "engine_step w (AddStatusEffect index effect w)"
| step_RemoveStatusEffect:
    "engine_step w (RemoveStatusEffect index effect w)"
| step_EndCombat:
    "engine_step w (EndCombat w)"
| step_SetEncounterDetails:
    "engine_step w (SetEncounterDetails campaignName encounterName w)"
| step_DuplicateCombatant:
    "int (length (Combatants (tracker w))) + sint count_n < 2 ^ 63 \<Longrightarrow>
     engine_step w (DuplicateCombatant index count_n w)"
| step_ChangeInitiative:
    "sort_Slice_ok srt \<Longrightarrow> engine_step w (ChangeInitiative srt index newInitiative w)"
| step_outside:
    "tracker w' = tracker w \<Longrightarrow> engine_step w w'"
| step_save_path:
    "engine_step w (w\<lparr>tracker := (tracker w)\<lparr>SaveFilePath := filename\<rparr>\<rparr>)"

inductive engine_reachable :: "world \<Rightarrow> bool" where
  fresh: "tracker w = NewCombatTracker \<Longrightarrow> engine_reachable w"
| step: "engine_reachable w \<Longrightarrow> engine_step w w' \<Longrightarrow> engine_reachable w'"

inductive reachable :: "world \<Rightarrow> bool" where
  fresh: "tracker w = NewCombatTracker \<Longrightarrow> reachable w"
| step: "reachable w \<Longrightarrow> engine_step w w' \<Longrightarrow> reachable w'"
| load: "reachable w \<Longrightarrow> LoadFromFile filename w = Inr ct \<Longrightarrow> reachable (w\<lparr>tracker := ct\<rparr>)"

text \<open>What makes the reads \<^verbatim>\<open>ct.Combatants[ct.CurrentTurnIdx]\<close> safe: the roster fits a slice
  and, while combat is active, the turn index points into it.\<close>

definition turn_ok :: "CombatTracker \<Rightarrow> bool" where
  "turn_ok ct =
     (int (length (Combatants ct)) < 2 ^ 63 \<and>
      (IsActive ct \<longrightarrow> \<not> bad_index (CurrentTurnIdx ct) (Combatants ct)))"

text \<open>
  The strings of a tracker that JSON carries unchanged, and what a tracker becomes when its
  strings are written to JSON and read back.
\<close>

definition strings_valid :: "CombatTracker \<Rightarrow> bool" where
  "strings_valid ct =
     (valid_utf8 (CampaignName ct) \<and> valid_utf8 (EncounterName ct) \<and>
      list_all valid_utf8 (TrackerStatusEffects ct) \<and>
      list_all (\<lambda>c. valid_utf8 (Name c) \<and> list_all valid_utf8 (StatusEffects c))
        (Combatants ct))"

definition coerce_Combatant :: "Combatant \<Rightarrow> Combatant" where
  "coerce_Combatant c =
     c\<lparr>Name := coerce_utf8 (Name c), StatusEffects := map coerce_utf8 (StatusEffects c)\<rparr>"

definition coerce_CombatTracker :: "CombatTracker \<Rightarrow> CombatTracker" where
  "coerce_CombatTracker ct =
     ct\<lparr>Combatants := map coerce_Combatant (Combatants ct),
        CampaignName := coerce_utf8 (CampaignName ct),
        EncounterName := coerce_utf8 (EncounterName ct),
        TrackerStatusEffects := map coerce_utf8 (TrackerStatusEffects ct)\<rparr>"

section \<open>Concrete trackers and worlds\<close>

text \<open>A save file in the format shown in the README, which has no catalog of status
  effects.\<close>

definition old_payload :: json where
  "old_payload =
     JObj [(''combatTracker'',
            JObj [(''combatants'',
                   JArr [JObj [(''name'', JStr ''Wizard''), (''initiative'', JNum 18),
                               (''maxHP'', JNum 45), (''currentHP'', JNum 32),
                               (''isPlayer'', JBool True), (''isConscious'', JBool True),
                               (''temporaryHP'', JNum 5),
                               (''statusEffects'', JArr [JStr ''Concentration''])]]),
                  (''round'', JNum 2), (''currentTurnIdx'', JNum 0), (''isActive'', JBool True),
                  (''campaignName'', JStr ''Lost Mine of Phandelver''),
                  (''encounterName'', JStr ''Goblin Ambush'')]),
           (''saveTime'', JStr ''2025-03-30T14:32:25Z''), (''version'', JStr ''1.0.0'')]"

definition wizard :: Combatant where
  "wizard = \<lparr>Name = ''Wizard'', Initiative = 18, MaxHP = 45, CurrentHP = 32, IsPlayer = True,
             IsConscious = True, TemporaryHP = 5, StatusEffects = [''Concentration'']\<rparr>"

definition old_state :: SaveState where
  "old_state =
     \<lparr>SaveStateTracker =
        \<lparr>Combatants = [wizard], Round = 2, CurrentTurnIdx = 0, IsActive = True,
         CampaignName = ''Lost Mine of Phandelver'', EncounterName = ''Goblin Ambush'',
         SaveFilePath = [], TrackerStatusEffects = []\<rparr>,
      SaveTime = ''2025-03-30T14:32:25Z'', Version = ''1.0.0''\<rparr>"

definition old_world :: world where
  "old_world =
     \<lparr>tracker = NewCombatTracker, disk = [''old.json'' \<mapsto> old_payload],
      writable = (\<lambda>_. True), now = ''2025-04-01T10:00:00Z'', console = []\<rparr>"


text \<open>
  Two save files made by hand: in \<^verbatim>\<open>ambush.json\<close> combat is on and nobody is there; in
  \<^verbatim>\<open>siege.json\<close> the Wizard fights alone in round 9223372036854775807, the last that an
  \<^verbatim>\<open>int\<close> can count. \<open>ambush\<close> and \<open>siege\<close> are the trackers that \<^verbatim>\<open>LoadFromFile\<close> makes of
  them.
\<close>

definition ambush_payload :: json where
  "ambush_payload =
     JObj [(''combatTracker'',
            JObj [(''combatants'', JArr []),
                  (''round'', JNum 1), (''currentTurnIdx'', JNum 0), (''isActive'', JBool True),
                  (''campaignName'', JStr ''Lost Mine of Phandelver''),
                  (''encounterName'', JStr ''Goblin Ambush''),
                  (''statusEffects'', JArr [JStr ''Prone''])]),
           (''saveTime'', JStr ''2025-03-30T14:32:25Z''), (''version'', JStr ''1.0.0'')]"

definition siege_payload :: json where
  "siege_payload =
     JObj [(''combatTracker'',
            JObj [(''combatants'',
                   JArr [JObj [(''name'', JStr ''Wizard''), (''initiative'', JNum 18),
                               (''maxHP'', JNum 45), (''currentHP'', JNum 32),
                               (''isPlayer'', JBool True), (''isConscious'', JBool True),
                               (''temporaryHP'', JNum 5),
                               (''statusEffects'', JArr [JStr ''Concentration''])]]),
                  (''round'', JNum 9223372036854775807), (''currentTurnIdx'', JNum 0),
                  (''isActive'', JBool True),
                  (''campaignName'', JStr ''Lost Mine of Phandelver''),
                  (''encounterName'', JStr ''Goblin Ambush''),
                  (''statusEffects'', JArr [JStr ''Prone''])]),
           (''saveTime'', JStr ''2025-03-30T14:32:25Z''), (''version'', JStr ''1.0.0'')]"

definition ambush :: CombatTracker where
  "ambush =
     \<lparr>Combatants = [], Round = 1, CurrentTurnIdx = 0, IsActive = True,
      CampaignName = ''Lost Mine of Phandelver'', EncounterName = ''Goblin Ambush'',
      SaveFilePath = ''ambush.json'', TrackerStatusEffects = [''Prone'']\<rparr>"

definition siege :: CombatTracker where
  "siege =
     \<lparr>Combatants = [wizard], Round = 9223372036854775807, CurrentTurnIdx = 0, IsActive = True,
      CampaignName = ''Lost Mine of Phandelver'', EncounterName = ''Goblin Ambush'',
      SaveFilePath = ''siege.json'', TrackerStatusEffects = [''Prone'']\<rparr>"

definition vault_world :: world where
  "vault_world =
     \<lparr>tracker = NewCombatTracker,
      disk = [''ambush.json'' \<mapsto> ambush_payload, ''siege.json'' \<mapsto> siege_payload],
      writable = (\<lambda>_. True), now = ''2025-04-01T10:00:00Z'', console = []\<rparr>"

text \<open>The scenario of the specification: Hero and Wolf are added to a fresh tracker with no
  save file, and combat is started.\<close>

definition hero :: Combatant where
  "hero = \<lparr>Name = ''Hero'', Initiative = 10, MaxHP = 20, CurrentHP = 20, IsPlayer = True,
           IsConscious = True, TemporaryHP = 0, StatusEffects = []\<rparr>"

definition wolf :: Combatant where
  "wolf = \<lparr>Name = ''Wolf'', Initiative = 15, MaxHP = 10, CurrentHP = 10, IsPlayer = False,
           IsConscious = True, TemporaryHP = 0, StatusEffects = []\<rparr>"

definition fresh_world :: world where
  "fresh_world =
     \<lparr>tracker = NewCombatTracker, disk = Map.empty, writable = (\<lambda>_. True),
      now = ''2025-04-01T10:00:00Z'', console = []\<rparr>"

definition duel :: CombatTracker where
  "duel = NewCombatTracker\<lparr>Combatants := [wolf, hero], Round := 1, CurrentTurnIdx := 0,
                           IsActive := True\<rparr>"

definition duel_world :: world where
  "duel_world = fresh_world\<lparr>tracker := duel\<rparr>"

text \<open>The same, after the wolf has been given five temporary hit points.\<close>

definition shielded_world :: world where
  "shielded_world = fresh_world\<lparr>tracker := duel\<lparr>Combatants := [wolf\<lparr>TemporaryHP := 5\<rparr>, hero]\<rparr>\<rparr>"

text \<open>The same once more, with a save file configured: the file holds the state as it was
  saved a minute ago.\<close>

definition autosaving :: CombatTracker where
  "autosaving = duel\<lparr>Combatants := [wolf\<lparr>TemporaryHP := 5\<rparr>, hero], SaveFilePath := ''encounter.json''\<rparr>"

definition autosaving_world :: world where
  "autosaving_world =
     \<lparr>tracker = autosaving,
      disk = [''encounter.json'' \<mapsto>
                Marshal_SaveState \<lparr>SaveStateTracker = autosaving,
                                    SaveTime = ''2025-04-01T09:59:00Z'', Version = ''1.0.0''\<rparr>],
      writable = (\<lambda>_. True), now = ''2025-04-01T10:00:00Z'', console = []\<rparr>"

text \<open>A roster of one combatant whose name ends in a number.\<close>

definition orc12 :: Combatant where
  "orc12 = \<lparr>Name = ''Orc12'', Initiative = 8, MaxHP = 25, CurrentHP = 25, IsPlayer = False,
            IsConscious = True, TemporaryHP = 0, StatusEffects = []\<rparr>"

definition orc_world :: world where
  "orc_world = fresh_world\<lparr>tracker := NewCombatTracker\<lparr>Combatants := [orc12]\<rparr>\<rparr>"

text \<open>Hero and Wolf before combat starts, in the order they were added.\<close>

definition lobby_world :: world where
  "lobby_world = fresh_world\<lparr>tracker := NewCombatTracker\<lparr>Combatants := [hero, wolf]\<rparr>\<rparr>"

text \<open>A combatant whose name, as typed, is the single byte FF, which is not UTF-8.\<close>

definition garbled_world :: world where
  "garbled_world = AddCombatant [CHR 0xFF] 12 7 False fresh_world"

text \<open>The duel after the Hero has fallen.\<close>

definition fallen_world :: world where
  "fallen_world =
     fresh_world\<lparr>tracker := duel\<lparr>Combatants := [wolf, hero\<lparr>CurrentHP := 0, IsConscious := False\<rparr>]\<rparr>\<rparr>"

section \<open>Basic facts\<close>

subsection \<open>Signed 64-bit arithmetic without overflow\<close>

lemma sint64_range: "- 9223372036854775808 \<le> sint (x::int64) \<and> sint x < 9223372036854775808"
  using sint_ge [of x] sint_lt [of x] by simp

lemma sint64_add:
  "- 9223372036854775808 \<le> sint a + sint b \<Longrightarrow> sint a + sint b < 9223372036854775808
   \<Longrightarrow> sint (a + b :: int64) = sint a + sint b"
  by (simp add: sint_word_add signed_take_bit_int_eq_self)

lemma sint64_diff:
  "- 9223372036854775808 \<le> sint a - sint b \<Longrightarrow> sint a - sint b < 9223372036854775808
   \<Longrightarrow> sint (a - b :: int64) = sint a - sint b"
  by (simp add: sint_word_diff signed_take_bit_int_eq_self)

lemma sint64_minus:
  "- 9223372036854775808 < sint a \<Longrightarrow> sint (- a :: int64) = - sint a"
  using sint64_range [of a]
  by (simp add: sint_word_minus signed_take_bit_int_eq_self)

lemma sint64_succ:
  "sint a < 9223372036854775807 \<Longrightarrow> sint (a + 1 :: int64) = sint a + 1"
  using sint64_range [of a] sint64_add [of a 1] by simp

subsection \<open>The world after a report and after a save\<close>

lemma tracker_say [simp]: "tracker (say l w) = tracker w"
  by (simp add: say_def)

lemma disk_say [simp]: "disk (say l w) = disk w"
  by (simp add: say_def)

lemma console_say [simp]: "console (say l w) = console w @ [l]"
  by (simp add: say_def)

lemma tracker_AutoSave [simp]: "tracker (AutoSave w) = tracker w"
  by (simp add: AutoSave_def SaveToFile_def Let_def)

lemma tracker_commit [simp]: "tracker (commit ct w) = ct"
  by (simp add: commit_def)

lemma commit_no_path: "SaveFilePath ct = [] \<Longrightarrow> commit ct w = w\<lparr>tracker := ct\<rparr>"
  by (simp add: commit_def AutoSave_def)

lemma commit_saved:
  "SaveFilePath ct \<noteq> [] \<Longrightarrow> writable w (SaveFilePath ct) \<Longrightarrow>
   commit ct w =
     w\<lparr>tracker := ct,
       disk := (disk w)(SaveFilePath ct \<mapsto>
                 Marshal_SaveState \<lparr>SaveStateTracker = ct, SaveTime = now w, Version = ''1.0.0''\<rparr>),
       console := console w @ [Saved (SaveFilePath ct)]\<rparr>"
  by (simp add: commit_def AutoSave_def SaveToFile_def Let_def say_def)

subsection \<open>Indices that pass the range test\<close>

lemma pos_less: "\<not> bad_index index cs \<Longrightarrow> pos index < length cs"
  unfolding bad_index_def pos_def by linarith

lemma nth_adjusted: "\<not> bad_index index cs \<Longrightarrow> cs[pos index := x] ! pos index = x"
  by (simp add: pos_less)

lemma list_all_update: "list_all P xs \<Longrightarrow> P y \<Longrightarrow> list_all P (xs[i := y])"
  using set_update_subset_insert [of xs i y] by (auto simp add: list_all_iff)

subsection \<open>The arithmetic of \<^verbatim>\<open>AdjustHP\<close> on one combatant\<close>

lemma adjust_heal:
  assumes "0 \<le> sint amount"
    and "sint (CurrentHP c) + sint amount < 9223372036854775808"
  shows "adjust amount c =
           c\<lparr>CurrentHP := CurrentHP (adjust amount c), IsConscious := IsConscious (adjust amount c)\<rparr>
         \<and> sint (CurrentHP (adjust amount c)) = min (sint (MaxHP c)) (sint (CurrentHP c) + sint amount)
         \<and> IsConscious (adjust amount c) = (IsConscious c \<or> 0 < sint (CurrentHP (adjust amount c)))"
proof -
  have s: "sint (CurrentHP c + amount) = sint (CurrentHP c) + sint amount"
    using assms sint64_range [of "CurrentHP c"] by (intro sint64_add) auto
  show ?thesis
    using assms(1) by (auto simp add: adjust_def Let_def s)
qed

lemma adjust_damage:
  assumes "sint amount < 0"
    and "- 9223372036854775808 < sint amount"
    and "- 9223372036854775808 \<le> sint (CurrentHP c) + sint amount"
  shows "adjust amount c =
           c\<lparr>CurrentHP := CurrentHP (adjust amount c), IsConscious := IsConscious (adjust amount c),
              TemporaryHP := TemporaryHP (adjust amount c)\<rparr>
         \<and> sint (TemporaryHP (adjust amount c)) =
             (if 0 < sint (TemporaryHP c) then max 0 (sint (TemporaryHP c) - (- sint amount))
              else sint (TemporaryHP c))
         \<and> sint (CurrentHP (adjust amount c)) =
             max 0 (sint (CurrentHP c) -
                    (if 0 < sint (TemporaryHP c) then max 0 (- sint amount - sint (TemporaryHP c))
                     else - sint amount))
         \<and> IsConscious (adjust amount c) =
             (IsConscious c \<and> 0 < sint (CurrentHP (adjust amount c)))"
proof -
  define d where "d = - amount"
  have m: "sint d = - sint amount"
    unfolding d_def using assms(2) by (rule sint64_minus)
  have r: "- 9223372036854775808 \<le> sint (CurrentHP c)" "sint (CurrentHP c) < 9223372036854775808"
    "- 9223372036854775808 \<le> sint (TemporaryHP c)" "sint (TemporaryHP c) < 9223372036854775808"
    using sint64_range [of "CurrentHP c"] sint64_range [of "TemporaryHP c"] by auto
  have t: "0 < sint (TemporaryHP c) \<Longrightarrow> sint (TemporaryHP c - d) = sint (TemporaryHP c) - sint d"
    using assms r m by (intro sint64_diff) auto
  have e: "0 < sint (TemporaryHP c) \<Longrightarrow> sint (d - TemporaryHP c) = sint d - sint (TemporaryHP c)"
    using assms r m by (intro sint64_diff) auto
  have h1: "sint (CurrentHP c - d) = sint (CurrentHP c) - sint d"
    using assms r m by (intro sint64_diff) auto
  have h2: "0 < sint (TemporaryHP c) \<Longrightarrow> \<not> sint d \<le> sint (TemporaryHP c) \<Longrightarrow>
      sint (CurrentHP c - (d - TemporaryHP c)) = sint (CurrentHP c) - (sint d - sint (TemporaryHP c))"
    using assms r m e sint64_diff [of "CurrentHP c" "d - TemporaryHP c"] by simp
  have a: "adjust amount c =
     (let (temp, damage) =
                (if sint (TemporaryHP c) > 0 then
                   (if sint d \<le> sint (TemporaryHP c)
                    then (TemporaryHP c - d, 0)
                    else (0, d - TemporaryHP c))
                 else (TemporaryHP c, d));
             hp = (if sint damage > 0 then CurrentHP c - damage else CurrentHP c)
         in if sint hp \<le> 0
            then c\<lparr>CurrentHP := 0, IsConscious := False, TemporaryHP := temp\<rparr>
            else c\<lparr>CurrentHP := hp, TemporaryHP := temp\<rparr>)"
    unfolding adjust_def d_def using assms(1) by (simp only: if_True Let_def)
  have n: "- sint amount = sint d" using m by simp
  show ?thesis
    unfolding a n using m assms(1)
    by (auto simp add: Let_def t e h1 h2 split: if_splits)
qed

lemma adjust_hp_ok:
  assumes "hp_ok c"
    and "0 \<le> sint amount \<longrightarrow> sint (CurrentHP c) + sint amount < 9223372036854775808"
  shows "hp_ok (adjust amount c)"
proof (cases "sint amount < 0")
  case True
  define d where "d = - amount"
  have sub: "0 < sint x \<Longrightarrow> sint (CurrentHP c - x) = sint (CurrentHP c) - sint x" for x :: int64
    using assms(1) sint64_range [of x] sint64_range [of "CurrentHP c"]
    by (intro sint64_diff) (auto simp add: hp_ok_def)
  have a: "adjust amount c =
     (let (temp, damage) =
                (if sint (TemporaryHP c) > 0 then
                   (if sint d \<le> sint (TemporaryHP c)
                    then (TemporaryHP c - d, 0)
                    else (0, d - TemporaryHP c))
                 else (TemporaryHP c, d));
             hp = (if sint damage > 0 then CurrentHP c - damage else CurrentHP c)
         in if sint hp \<le> 0
            then c\<lparr>CurrentHP := 0, IsConscious := False, TemporaryHP := temp\<rparr>
            else c\<lparr>CurrentHP := hp, TemporaryHP := temp\<rparr>)"
    unfolding adjust_def d_def using True by (simp only: if_True Let_def)
  show ?thesis
    unfolding a using assms(1)
    by (auto simp add: Let_def hp_ok_def sub split: if_splits)
next
  case False
  then have s: "sint (CurrentHP c + amount) = sint (CurrentHP c) + sint amount"
    using assms sint64_range [of "CurrentHP c"] by (intro sint64_add) (auto simp add: hp_ok_def)
  show ?thesis
    using False assms(1) by (auto simp add: adjust_def Let_def hp_ok_def s)
qed

subsection \<open>Strings that JSON carries unchanged\<close>

lemma coerce_valid: "valid_utf8 s \<Longrightarrow> coerce_utf8 s = s"
proof (induction s rule: valid_utf8.induct)
  case 1
  show ?case by (simp add: coerce_utf8.simps)
next
  case (2 c cs)
  from "2.prems" have n: "rune_len (c # cs) \<noteq> 0"
    and v: "valid_utf8 (drop (rune_len (c # cs)) (c # cs))"
    by (simp_all add: valid_utf8.simps split: if_splits)
  from "2.IH" [OF n v] have "coerce_utf8 (drop (rune_len (c # cs)) (c # cs))
      = drop (rune_len (c # cs)) (c # cs)" .
  then have "coerce_utf8 (c # cs)
      = take (rune_len (c # cs)) (c # cs) @ drop (rune_len (c # cs)) (c # cs)"
    using n by (simp add: coerce_utf8.simps)
  then show ?case by (simp only: append_take_drop_id)
qed

lemma ascii_valid: "list_all (\<lambda>c. byte c < 128) s \<Longrightarrow> valid_utf8 s"
  by (induction s) (simp_all add: valid_utf8.simps rune_len.simps)

lemma ascii_coerce: "list_all (\<lambda>c. byte c < 128) s \<Longrightarrow> coerce_utf8 s = s"
  by (simp add: coerce_valid ascii_valid)

subsection \<open>Operations that end with the auto-save\<close>

lemma AddTemporaryHP_commit:
  "\<not> bad_index index (Combatants (tracker w)) \<Longrightarrow>
   AddTemporaryHP index amount w =
     commit ((tracker w)\<lparr>Combatants := (Combatants (tracker w))
        [pos index := (Combatants (tracker w) ! pos index)\<lparr>TemporaryHP :=
           (if sint amount > sint (TemporaryHP (Combatants (tracker w) ! pos index)) then amount
            else TemporaryHP (Combatants (tracker w) ! pos index))\<rparr>]\<rparr>) w"
  by (simp add: AddTemporaryHP_def Let_def)

lemma resave_autosaving:
  "commit autosaving autosaving_world =
     autosaving_world\<lparr>disk := (disk autosaving_world)(''encounter.json'' \<mapsto>
         Marshal_SaveState \<lparr>SaveStateTracker = autosaving, SaveTime = ''2025-04-01T10:00:00Z'',
                             Version = ''1.0.0''\<rparr>),
       console := [Saved ''encounter.json'']\<rparr>"
proof -
  have p: "SaveFilePath autosaving = ''encounter.json''"
    by (simp add: autosaving_def)
  have q: "SaveFilePath autosaving \<noteq> []" "writable autosaving_world (SaveFilePath autosaving)"
    by (simp_all add: p autosaving_world_def)
  show ?thesis
    using commit_saved [OF q] by (simp add: p) (simp add: autosaving_world_def)
qed

lemma resave_differs:
  "disk (commit autosaving autosaving_world) ''encounter.json''
     \<noteq> disk autosaving_world ''encounter.json''"
proof -
  have "coerce_utf8 ''2025-04-01T10:00:00Z'' \<noteq> coerce_utf8 ''2025-04-01T09:59:00Z''"
    by (simp add: ascii_coerce byte_def)
  then show ?thesis
    unfolding resave_autosaving by (simp add: autosaving_world_def Marshal_SaveState_def)
qed

subsection \<open>Insertion sort keeps the promise of \<^verbatim>\<open>sort.Slice\<close>\<close>

lemma mset_insert_by: "mset (insert_by f x ys) = add_mset x (mset ys)"
  by (induction ys) simp_all

lemma set_insert_by: "set (insert_by f x ys) = insert x (set ys)"
  by (induction ys) auto

lemma sorted_insert_by:
  "sorted_wrt (\<lambda>a b. \<not> higher_initiative b a) ys \<Longrightarrow>
   sorted_wrt (\<lambda>a b. \<not> higher_initiative b a) (insert_by higher_initiative x ys)"
  by (induction ys) (auto simp add: set_insert_by higher_initiative_def)

lemma mset_insertion_fold:
  "mset (foldl (\<lambda>ys x. insert_by f x ys) acc xs) = mset acc + mset xs"
  by (induction xs arbitrary: acc) (simp_all add: mset_insert_by)

lemma sorted_insertion_fold:
  "sorted_wrt (\<lambda>a b. \<not> higher_initiative b a) acc \<Longrightarrow>
   sorted_wrt (\<lambda>a b. \<not> higher_initiative b a)
     (foldl (\<lambda>ys x. insert_by higher_initiative x ys) acc xs)"
  by (induction xs arbitrary: acc) (simp_all add: sorted_insert_by)

lemma insertionSort_ok: "sort_Slice_ok insertionSort"
  by (simp add: sort_Slice_ok_def insertionSort_def mset_insertion_fold sorted_insertion_fold)

lemma sorted_length: "sort_Slice_ok srt \<Longrightarrow> length (srt higher_initiative xs) = length xs"
  unfolding sort_Slice_ok_def by (metis size_mset)

lemma StartCombat_started:
  assumes "sort_Slice_ok srt" and "Combatants (tracker w) \<noteq> []"
  shows "StartCombat srt w =
           Inr (commit ((tracker w)\<lparr>Combatants := srt higher_initiative (Combatants (tracker w)),
                           Round := 1, CurrentTurnIdx := 0, IsActive := True\<rparr>) w)"
  using assms sorted_length [OF assms(1), of "Combatants (tracker w)"]
  by (simp add: StartCombat_def SortByInitiative_def bad_index_def Let_def)

subsection \<open>Turns\<close>

lemma sint64_of_nat: "int i < 9223372036854775808 \<Longrightarrow> sint (word_of_nat i :: int64) = int i"
  by (simp add: signed_of_nat signed_take_bit_int_eq_self)

lemma NextTurn_climb:
  assumes "IsActive (tracker w)"
    and "0 \<le> sint (CurrentTurnIdx (tracker w))"
    and "sint (CurrentTurnIdx (tracker w)) + 1 < int (length (Combatants (tracker w)))"
    and "int (length (Combatants (tracker w))) < 9223372036854775808"
  shows "NextTurn w =
           Inr (commit ((tracker w)\<lparr>CurrentTurnIdx := CurrentTurnIdx (tracker w) + 1\<rparr>) w)"
proof -
  have "sint (CurrentTurnIdx (tracker w) + 1) = sint (CurrentTurnIdx (tracker w)) + 1"
    using assms by (intro sint64_succ) simp
  then show ?thesis
    using assms by (simp add: NextTurn_def Let_def bad_index_def)
qed

lemma NextTurn_wrap:
  assumes "IsActive (tracker w)"
    and "sint (CurrentTurnIdx (tracker w)) + 1 = int (length (Combatants (tracker w)))"
    and "int (length (Combatants (tracker w))) < 9223372036854775808"
    and "Combatants (tracker w) \<noteq> []"
  shows "NextTurn w =
           Inr (commit ((tracker w)\<lparr>Round := Round (tracker w) + 1, CurrentTurnIdx := 0\<rparr>) w)"
proof -
  have "sint (CurrentTurnIdx (tracker w) + 1) = sint (CurrentTurnIdx (tracker w)) + 1"
    using assms by (intro sint64_succ) simp
  then show ?thesis
    using assms by (simp add: NextTurn_def Let_def bad_index_def)
qed

lemma NextTurns_snoc:
  "NextTurns n w = Inr v \<Longrightarrow> NextTurn v = Inr v' \<Longrightarrow> NextTurns (Suc n) w = Inr v'"
proof (induction n arbitrary: w)
  case 0
  then show ?case by simp
next
  case (Suc n)
  from Suc.prems(1) obtain x where x: "NextTurn w = Inr x" "NextTurns n x = Inr v"
    by (auto split: sum.splits)
  from Suc.IH [OF x(2) Suc.prems(2)] have "NextTurns (Suc n) x = Inr v'" .
  then show ?case
    using x(1) by simp
qed

lemma NextTurns_climb:
  assumes "IsActive (tracker w)"
    and "CurrentTurnIdx (tracker w) = word_of_nat i"
    and "i + k < length (Combatants (tracker w))"
    and "int (length (Combatants (tracker w))) < 9223372036854775808"
  shows "\<exists>w'. NextTurns k w = Inr w' \<and> tracker w' = (tracker w)\<lparr>CurrentTurnIdx := word_of_nat (i + k)\<rparr>"
  using assms
proof (induction k arbitrary: w i)
  case 0
  then show ?case by simp
next
  case (Suc k)
  have s: "sint (CurrentTurnIdx (tracker w)) = int i"
    using Suc.prems by (simp add: sint64_of_nat)
  let ?w = "commit ((tracker w)\<lparr>CurrentTurnIdx := CurrentTurnIdx (tracker w) + 1\<rparr>) w"
  have n: "NextTurn w = Inr ?w"
    using Suc.prems s by (intro NextTurn_climb) simp_all
  have "\<exists>w'. NextTurns k ?w = Inr w' \<and> tracker w' = (tracker ?w)\<lparr>CurrentTurnIdx := word_of_nat (Suc i + k)\<rparr>"
    using Suc.prems by (intro Suc.IH) simp_all
  then show ?case
    using n by simp
qed

subsection \<open>The turn index stays inside the roster\<close>

lemma bad_index_append: "\<not> bad_index i xs \<Longrightarrow> \<not> bad_index i (xs @ ys)"
  by (simp add: bad_index_def)

lemma NextTurn_Inr:
  assumes "NextTurn w = Inr w'" and "IsActive (tracker w)"
  shows "\<not> bad_index (CurrentTurnIdx (tracker w')) (Combatants (tracker w))"
    and "Combatants (tracker w') = Combatants (tracker w)"
    and "IsActive (tracker w')"
proof -
  define ct where "ct =
     (if sint (CurrentTurnIdx (tracker w) + 1) \<ge> int (length (Combatants (tracker w)))
      then (tracker w)\<lparr>Round := Round (tracker w) + 1, CurrentTurnIdx := 0\<rparr>
      else (tracker w)\<lparr>CurrentTurnIdx := CurrentTurnIdx (tracker w) + 1\<rparr>)"
  have c: "Combatants ct = Combatants (tracker w)" "IsActive ct"
    using assms(2) by (simp_all add: ct_def)
  have "NextTurn w =
      (if bad_index (CurrentTurnIdx ct) (Combatants ct) then Inl IndexOutOfRange
       else Inr (commit ct w))"
    using assms(2) unfolding ct_def by (simp add: NextTurn_def Let_def)
  then have "\<not> bad_index (CurrentTurnIdx ct) (Combatants ct)" and "w' = commit ct w"
    using assms(1) by (simp_all split: if_splits)
  then show "\<not> bad_index (CurrentTurnIdx (tracker w')) (Combatants (tracker w))"
    and "Combatants (tracker w') = Combatants (tracker w)"
    and "IsActive (tracker w')"
    using c by simp_all
qed

lemma engine_step_turn_ok:
  assumes "engine_step w w'" and "turn_ok (tracker w)"
  shows "turn_ok (tracker w')"
  using assms
proof (induction rule: engine_step.induct)
  case (step_AddCombatant w name initiative maxHP isPlayer)
  then show ?case
    by (simp add: AddCombatant_def turn_ok_def bad_index_append)
next
  case (step_StartCombat srt w w')
  show ?case
  proof (cases "Combatants (tracker w) = []")
    case True
    then show ?thesis
      using step_StartCombat by (auto simp add: StartCombat_def)
  next
    case False
    then show ?thesis
      using step_StartCombat StartCombat_started [OF step_StartCombat(1) False]
        sorted_length [OF step_StartCombat(1), of "Combatants (tracker w)"]
      by (auto simp add: turn_ok_def bad_index_def)
  qed
next
  case (step_NextTurn w w')
  show ?case
  proof (cases "IsActive (tracker w)")
    case True
    then show ?thesis
      using step_NextTurn NextTurn_Inr [OF step_NextTurn(1) True] by (simp add: turn_ok_def)
  next
    case False
    then show ?thesis
      using step_NextTurn by (auto simp add: NextTurn_def)
  qed
next
  case (step_AdjustHP w index amount)
  then show ?case
    by (simp add: AdjustHP_def Let_def turn_ok_def bad_index_def)
next
  case (step_AddTemporaryHP w index amount)
  then show ?case
    by (simp add: AddTemporaryHP_def Let_def turn_ok_def bad_index_def)
next
  case (step_AddStatusEffect w index effect)
  then show ?case
    by (simp add: AddStatusEffect_def Let_def turn_ok_def bad_index_def)
next
  case (step_RemoveStatusEffect w index effect)
  then show ?case
    by (simp add: RemoveStatusEffect_def Let_def turn_ok_def bad_index_def
        split: option.splits)
next
  case (step_EndCombat w)
  then show ?case
    by (simp add: EndCombat_def turn_ok_def)
next
  case (step_SetEncounterDetails w campaignName encounterName)
  then show ?case
    by (simp add: SetEncounterDetails_def turn_ok_def)
next
  case (step_DuplicateCombatant w count_n index)
  then have "length (Combatants (tracker w)) + nat (sint count_n) < 9223372036854775808"
    by (simp add: turn_ok_def) linarith
  then show ?case
    using step_DuplicateCombatant
    by (simp add: DuplicateCombatant_def Let_def turn_ok_def bad_index_append)
next
  case (step_ChangeInitiative srt w index newInitiative)
  then show ?case
    using sorted_length [OF step_ChangeInitiative(1)]
    by (simp add: ChangeInitiative_def Let_def SortByInitiative_def turn_ok_def
        bad_index_def)
next
  case (step_outside w' w)
  then show ?case by simp
next
  case (step_save_path w filename)
  then show ?case by (simp add: turn_ok_def)
qed

lemma engine_reachable_turn_ok: "engine_reachable w \<Longrightarrow> turn_ok (tracker w)"
proof (induction rule: engine_reachable.induct)
  case (fresh w)
  then show ?case by (simp add: turn_ok_def NewCombatTracker_def)
next
  case (step w w')
  then show ?case by (simp add: engine_step_turn_ok)
qed

lemma NextTurn_no_panic:
  assumes "turn_ok (tracker w)"
  shows "NextTurn w \<noteq> Inl IndexOutOfRange"
proof (cases "IsActive (tracker w)")
  case False
  then show ?thesis by (simp add: NextTurn_def)
next
  case True
  then have b: "\<not> bad_index (CurrentTurnIdx (tracker w)) (Combatants (tracker w))"
    and l: "int (length (Combatants (tracker w))) < 9223372036854775808"
    using assms by (simp_all add: turn_ok_def)
  then have "sint (CurrentTurnIdx (tracker w) + 1) = sint (CurrentTurnIdx (tracker w)) + 1"
    by (intro sint64_succ) (simp add: bad_index_def)
  moreover have "Combatants (tracker w) \<noteq> []"
    using b by (auto simp add: bad_index_def)
  ultimately show ?thesis
    using True b by (simp add: NextTurn_def Let_def bad_index_def)
qed

lemma StartCombat_no_panic:
  assumes "sort_Slice_ok srt"
  shows "StartCombat srt w \<noteq> Inl IndexOutOfRange"
proof (cases "Combatants (tracker w) = []")
  case True
  then show ?thesis by (simp add: StartCombat_def)
next
  case False
  then show ?thesis by (simp add: StartCombat_started [OF assms False])
qed


subsection \<open>The scenario of the specification is reachable\<close>

lemma add_hero:
  "AddCombatant ''Hero'' 10 20 True fresh_world
     = fresh_world\<lparr>tracker := NewCombatTracker\<lparr>Combatants := [hero]\<rparr>\<rparr>"
  by (simp add: AddCombatant_def commit_no_path hero_def fresh_world_def NewCombatTracker_def)

lemma add_wolf:
  "AddCombatant ''Wolf'' 15 10 False (fresh_world\<lparr>tracker := NewCombatTracker\<lparr>Combatants := [hero]\<rparr>\<rparr>)
     = lobby_world"
  by (simp add: AddCombatant_def commit_no_path wolf_def lobby_world_def fresh_world_def
      NewCombatTracker_def)

lemma start_duel: "StartCombat insertionSort lobby_world = Inr duel_world"
proof -
  have n: "Combatants (tracker lobby_world) \<noteq> []"
    by (simp add: lobby_world_def)
  have s: "insertionSort higher_initiative [hero, wolf] = [wolf, hero]"
    by (simp add: insertionSort_def higher_initiative_def hero_def wolf_def)
  show ?thesis
    unfolding StartCombat_started [OF insertionSort_ok n]
    by (simp add: lobby_world_def s duel_world_def duel_def NewCombatTracker_def)
      (simp add: commit_no_path fresh_world_def)
qed

lemma lobby_reachable: "engine_reachable lobby_world"
proof -
  have 0: "engine_reachable fresh_world"
    by (rule engine_reachable.fresh) (simp add: fresh_world_def)
  have "engine_step fresh_world (AddCombatant ''Hero'' 10 20 True fresh_world)"
    by (rule step_AddCombatant) (simp add: fresh_world_def NewCombatTracker_def)
  from engine_reachable.step [OF 0 this]
  have 1: "engine_reachable (fresh_world\<lparr>tracker := NewCombatTracker\<lparr>Combatants := [hero]\<rparr>\<rparr>)"
    by (simp only: add_hero)
  have "engine_step (fresh_world\<lparr>tracker := NewCombatTracker\<lparr>Combatants := [hero]\<rparr>\<rparr>)
      (AddCombatant ''Wolf'' 15 10 False (fresh_world\<lparr>tracker := NewCombatTracker\<lparr>Combatants := [hero]\<rparr>\<rparr>))"
    by (rule step_AddCombatant) simp
  from engine_reachable.step [OF 1 this] show ?thesis
    by (simp only: add_wolf)
qed

lemma duel_reachable: "engine_reachable duel_world"
  using lobby_reachable step_StartCombat [OF insertionSort_ok start_duel]
  by (rule engine_reachable.step)

subsection \<open>Reading back what was written\<close>

lemma foldName_tags:
  "foldName ''name'' = ''NAME''" "foldName ''initiative'' = ''INITIATIVE''"
  "foldName ''maxHP'' = ''MAXHP''" "foldName ''currentHP'' = ''CURRENTHP''"
  "foldName ''isPlayer'' = ''ISPLAYER''" "foldName ''isConscious'' = ''ISCONSCIOUS''"
  "foldName ''temporaryHP'' = ''TEMPORARYHP''" "foldName ''statusEffects'' = ''STATUSEFFECTS''"
  "foldName ''combatants'' = ''COMBATANTS''" "foldName ''round'' = ''ROUND''"
  "foldName ''currentTurnIdx'' = ''CURRENTTURNIDX''" "foldName ''isActive'' = ''ISACTIVE''"
  "foldName ''campaignName'' = ''CAMPAIGNNAME''" "foldName ''encounterName'' = ''ENCOUNTERNAME''"
  "foldName ''combatTracker'' = ''COMBATTRACKER''" "foldName ''saveTime'' = ''SAVETIME''"
  "foldName ''version'' = ''VERSION''"
  by code_simp+

lemmas decode_defs = Unmarshal_SaveState_def decode_SaveState_field_def
  decode_CombatTracker_field_def decode_Combatant_field_def tagged_def foldName_tags
  zero_SaveState_held_def zero_CombatTracker_def zero_Combatant_def shown_SaveState_def
  shown_CombatTracker_def

lemma decode_int_sint: "decode_int (JNum (sint (x::int64))) old = Some x"
  using sint64_range [of x] by simp

lemma decode_elements_strings:
  "decode_elements decode_string [] (map (\<lambda>s. JStr (coerce_utf8 s)) xs) held
     = Some (map coerce_utf8 xs)"
  by (induction xs arbitrary: held) simp_all

lemma decode_slice_strings:
  "decode_slice decode_string [] (Marshal_strings xs) ([], []) = Some (map coerce_utf8 xs, [])"
  by (simp add: Marshal_strings_def decode_elements_strings)

lemma decode_Combatant_Marshal:
  "decode_Combatant (Marshal_Combatant c) (zero_Combatant, []) = Some (coerce_Combatant c, [])"
  by (simp add: Marshal_Combatant_def decode_Combatant_field_def tagged_def foldName_tags
      decode_int_sint decode_slice_strings coerce_Combatant_def zero_Combatant_def
      del: decode_int.simps decode_slice.simps foldName.simps)

lemma decode_elements_Combatants:
  "decode_elements decode_Combatant (zero_Combatant, []) (map Marshal_Combatant cs) []
     = Some (map (\<lambda>c. (coerce_Combatant c, [])) cs)"
  by (induction cs) (simp_all add: decode_Combatant_Marshal)

lemma decode_slice_Combatants:
  "decode_slice decode_Combatant (zero_Combatant, []) (JArr (map Marshal_Combatant cs)) ([], [])
     = Some (map (\<lambda>c. (coerce_Combatant c, [])) cs, [])"
  by (simp add: decode_elements_Combatants)

lemma decode_CombatTracker_Marshal:
  "map_option shown_CombatTracker
     (decode_CombatTracker (Marshal_CombatTracker ct)
        \<lparr>Decoded = zero_CombatTracker, Roster = ([], []), Catalog_behind = []\<rparr>)
     = Some ((coerce_CombatTracker ct)\<lparr>SaveFilePath := []\<rparr>)"
  by (simp add: Marshal_CombatTracker_def decode_CombatTracker_field_def tagged_def foldName_tags
      decode_int_sint decode_slice_strings decode_slice_Combatants coerce_CombatTracker_def
      zero_CombatTracker_def shown_CombatTracker_def comp_def
      del: decode_int.simps decode_slice.simps foldName.simps)

lemma Unmarshal_SaveState_Marshal:
  "Unmarshal_SaveState (Marshal_SaveState st)
     = Some \<lparr>SaveStateTracker = (coerce_CombatTracker (SaveStateTracker st))\<lparr>SaveFilePath := []\<rparr>,
             SaveTime = coerce_utf8 (SaveTime st), Version = coerce_utf8 (Version st)\<rparr>"
proof -
  obtain h where h: "decode_CombatTracker (Marshal_CombatTracker (SaveStateTracker st))
        \<lparr>Decoded = zero_CombatTracker, Roster = ([], []), Catalog_behind = []\<rparr> = Some h"
    and s: "shown_CombatTracker h = (coerce_CombatTracker (SaveStateTracker st))\<lparr>SaveFilePath := []\<rparr>"
    using decode_CombatTracker_Marshal [of "SaveStateTracker st"] by auto
  show ?thesis
    by (simp add: Unmarshal_SaveState_def Marshal_SaveState_def decode_SaveState_field_def
        tagged_def foldName_tags zero_SaveState_held_def h shown_SaveState_def s
        del: foldName.simps)
qed

lemma coerce_Combatant_valid:
  "valid_utf8 (Name c) \<and> list_all valid_utf8 (StatusEffects c) \<Longrightarrow> coerce_Combatant c = c"
  by (simp add: coerce_Combatant_def coerce_valid list_all_iff map_idI)

lemma coerce_CombatTracker_valid: "strings_valid ct \<Longrightarrow> coerce_CombatTracker ct = ct"
  by (simp add: coerce_CombatTracker_def strings_valid_def coerce_valid coerce_Combatant_valid
      list_all_iff map_idI)

subsection \<open>The catalog of a reachable tracker is never empty\<close>

lemma NextTurn_catalog:
  assumes "NextTurn w = Inr w'"
  shows "TrackerStatusEffects (tracker w') = TrackerStatusEffects (tracker w)"
proof (cases "IsActive (tracker w)")
  case False
  then show ?thesis
    using assms by (auto simp add: NextTurn_def)
next
  case True
  define ct where "ct =
     (if sint (CurrentTurnIdx (tracker w) + 1) \<ge> int (length (Combatants (tracker w)))
      then (tracker w)\<lparr>Round := Round (tracker w) + 1, CurrentTurnIdx := 0\<rparr>
      else (tracker w)\<lparr>CurrentTurnIdx := CurrentTurnIdx (tracker w) + 1\<rparr>)"
  have c: "TrackerStatusEffects ct = TrackerStatusEffects (tracker w)"
    by (simp add: ct_def)
  have "NextTurn w =
      (if bad_index (CurrentTurnIdx ct) (Combatants ct) then Inl IndexOutOfRange
       else Inr (commit ct w))"
    using True unfolding ct_def by (simp add: NextTurn_def Let_def)
  then have "w' = commit ct w"
    using assms by (simp split: if_splits)
  then show ?thesis
    using c by simp
qed

lemma StartCombat_catalog:
  assumes "sort_Slice_ok srt" and "StartCombat srt w = Inr w'"
  shows "TrackerStatusEffects (tracker w') = TrackerStatusEffects (tracker w)"
proof (cases "Combatants (tracker w) = []")
  case True
  then show ?thesis
    using assms(2) by (auto simp add: StartCombat_def)
next
  case False
  then show ?thesis
    using assms(2) StartCombat_started [OF assms(1) False] by auto
qed

lemma engine_step_catalog:
  "engine_step w w' \<Longrightarrow> TrackerStatusEffects (tracker w') = TrackerStatusEffects (tracker w)"
proof (induction rule: engine_step.induct)
  case (step_StartCombat srt w w')
  then show ?case by (rule StartCombat_catalog)
next
  case (step_NextTurn w w')
  then show ?case by (rule NextTurn_catalog)
next
  case (step_RemoveStatusEffect w index effect)
  show ?case
    by (simp add: RemoveStatusEffect_def Let_def split: option.splits)
next
  case (step_ChangeInitiative srt w index newInitiative)
  show ?case
    by (simp add: ChangeInitiative_def Let_def SortByInitiative_def)
qed (simp_all add: AddCombatant_def AdjustHP_def AddTemporaryHP_def AddStatusEffect_def
    EndCombat_def SetEncounterDetails_def DuplicateCombatant_def Let_def)

lemma reachable_catalog: "reachable w \<Longrightarrow> TrackerStatusEffects (tracker w) \<noteq> []"
proof (induction rule: reachable.induct)
  case (fresh w)
  then show ?case by (simp add: NewCombatTracker_def defaultEffects_def)
next
  case (step w w')
  then show ?case by (simp add: engine_step_catalog)
next
  case (load w filename ct)
  from load(2) show ?case
    by (auto simp add: LoadFromFile_def Let_def defaultEffects_def
        split: option.splits if_splits)
qed

lemma engine_reachable_reachable: "engine_reachable w \<Longrightarrow> reachable w"
  by (induction rule: engine_reachable.induct) (auto intro: reachable.intros)

lemma round_trip_coerced:
  assumes "TrackerStatusEffects (tracker w) \<noteq> []" and "writable w filename"
  shows "fst (SaveToFile filename w) = None"
    and "LoadFromFile filename (snd (SaveToFile filename w))
           = Inr ((coerce_CombatTracker (tracker w))\<lparr>SaveFilePath := filename\<rparr>)"
proof -
  show "fst (SaveToFile filename w) = None"
    using assms(2) by (simp add: SaveToFile_def Let_def)
  have "disk (snd (SaveToFile filename w)) filename
      = Some (Marshal_SaveState \<lparr>SaveStateTracker = tracker w, SaveTime = now w,
                                   Version = ''1.0.0''\<rparr>)"
    using assms(2) by (simp add: SaveToFile_def Let_def)
  moreover have "TrackerStatusEffects (coerce_CombatTracker (tracker w)) \<noteq> []"
    using assms(1) by (simp add: coerce_CombatTracker_def)
  ultimately show "LoadFromFile filename (snd (SaveToFile filename w))
      = Inr ((coerce_CombatTracker (tracker w))\<lparr>SaveFilePath := filename\<rparr>)"
    by (simp add: LoadFromFile_def Unmarshal_SaveState_Marshal Let_def)
qed

lemma garbled_world_eq:
  "garbled_world = fresh_world\<lparr>tracker := NewCombatTracker\<lparr>Combatants :=
     [\<lparr>Name = [CHR 0xFF], Initiative = 12, MaxHP = 7, CurrentHP = 7, IsPlayer = False,
       IsConscious = True, TemporaryHP = 0, StatusEffects = []\<rparr>]\<rparr>\<rparr>"
  by (simp add: garbled_world_def AddCombatant_def commit_no_path fresh_world_def
      NewCombatTracker_def)

lemma defaults_ascii: "list_all (\<lambda>s. list_all (\<lambda>c. byte c < 128) s) defaultEffects"
  by (simp add: defaultEffects_def byte_def)

lemma defaults_coerce: "map coerce_utf8 defaultEffects = defaultEffects"
  using defaults_ascii by (simp add: list_all_iff ascii_coerce map_idI)

lemma defaults_valid: "list_all valid_utf8 defaultEffects"
  using defaults_ascii by (simp add: list_all_iff ascii_valid)

section \<open>Saving and loading back\<close>

text \<open>
  C1, as stated: for every reachable tracker, saving it to a file and loading that file
  gives back the same tracker, the save path apart. A name is whatever bytes were typed;
  \<^verbatim>\<open>encoding/json\<close> writes a string coerced to valid UTF-8, so a name that is not valid
  UTF-8 comes back changed: the byte FF comes back as the three bytes of U+FFFD.
\<close>

theorem save_load_garbles_name:
  "reachable garbled_world
   \<and> writable garbled_world ''s.json''
   \<and> map Name (Combatants (tracker garbled_world)) = [[CHR 0xFF]]
   \<and> fst (SaveToFile ''s.json'' garbled_world) = None
   \<and> LoadFromFile ''s.json'' (snd (SaveToFile ''s.json'' garbled_world))
       = Inr ((tracker garbled_world)\<lparr>SaveFilePath := ''s.json'', Combatants :=
           [\<lparr>Name = [CHR 0xEF, CHR 0xBF, CHR 0xBD], Initiative = 12, MaxHP = 7, CurrentHP = 7,
             IsPlayer = False, IsConscious = True, TemporaryHP = 0, StatusEffects = []\<rparr>]\<rparr>)
   \<and> LoadFromFile ''s.json'' (snd (SaveToFile ''s.json'' garbled_world))
       \<noteq> Inr ((tracker garbled_world)\<lparr>SaveFilePath := ''s.json''\<rparr>)"
proof -
  have "engine_step fresh_world garbled_world"
    unfolding garbled_world_def
    by (rule step_AddCombatant) (simp add: fresh_world_def NewCombatTracker_def)
  moreover have "reachable fresh_world"
    by (rule reachable.fresh) (simp add: fresh_world_def)
  ultimately have r: "reachable garbled_world"
    by (rule reachable.step [rotated])
  have w: "writable garbled_world ''s.json''"
    by (simp add: garbled_world_eq fresh_world_def)
  have c: "coerce_utf8 [CHR 0xFF] = [CHR 0xEF, CHR 0xBF, CHR 0xBD]"
    by (simp add: coerce_utf8.simps rune_len.simps byte_def replacement_def)
  have a: "coerce_utf8 ''Default Campaign'' = ''Default Campaign''"
    "coerce_utf8 ''Unknown Encounter'' = ''Unknown Encounter''"
    by (simp_all add: ascii_coerce byte_def)
  have t: "coerce_CombatTracker (tracker garbled_world)
      = (tracker garbled_world)\<lparr>Combatants :=
           [\<lparr>Name = [CHR 0xEF, CHR 0xBF, CHR 0xBD], Initiative = 12, MaxHP = 7, CurrentHP = 7,
             IsPlayer = False, IsConscious = True, TemporaryHP = 0, StatusEffects = []\<rparr>]\<rparr>"
    by (simp add: garbled_world_eq coerce_CombatTracker_def coerce_Combatant_def
        NewCombatTracker_def c a defaults_coerce)
  show ?thesis
    using r w round_trip_coerced [OF reachable_catalog [OF r] w]
    by (simp add: t) (simp add: garbled_world_eq NewCombatTracker_def)
qed

text \<open>
  C1, amended: for every reachable tracker whose strings (campaign and encounter name,
  catalog, names and status effects of the combatants) are valid UTF-8, and every file
  that can be written, saving the tracker to the file succeeds and loading the file gives
  a tracker equal to it in every field except the save path, which is the file just read.
\<close>

theorem save_load_round_trip:
  assumes "reachable w"
    and "writable w filename"
    and "strings_valid (tracker w)"
  shows "fst (SaveToFile filename w) = None
       \<and> LoadFromFile filename (snd (SaveToFile filename w))
           = Inr ((tracker w)\<lparr>SaveFilePath := filename\<rparr>)"
  using round_trip_coerced [OF reachable_catalog [OF assms(1)] assms(2)]
    coerce_CombatTracker_valid [OF assms(3)]
  by simp

text \<open>The scenario of the specification, saved and loaded back.\<close>

theorem save_load_round_trip_witness:
  "fst (SaveToFile ''encounter.json'' duel_world) = None
   \<and> LoadFromFile ''encounter.json'' (snd (SaveToFile ''encounter.json'' duel_world))
       = Inr (duel\<lparr>SaveFilePath := ''encounter.json''\<rparr>)"
proof -
  have r: "reachable duel_world"
    using duel_reachable by (rule engine_reachable_reachable)
  have w: "writable duel_world ''encounter.json''"
    by (simp add: duel_world_def fresh_world_def)
  have "valid_utf8 ''Default Campaign''" "valid_utf8 ''Unknown Encounter''"
    "valid_utf8 ''Hero''" "valid_utf8 ''Wolf''"
    by (simp_all add: ascii_valid byte_def)
  then have v: "strings_valid (tracker duel_world)"
    using defaults_valid
    by (simp add: strings_valid_def duel_world_def duel_def NewCombatTracker_def hero_def wolf_def)
  from save_load_round_trip [OF r w v] show ?thesis
    by (simp add: duel_world_def)
qed

section \<open>Adjusting hit points\<close>

text \<open>
  C3, as stated: for every in-range index, a non-negative \<open>delta\<close> is added to
  \<open>currentHP\<close> and the sum capped at \<open>maxHP\<close>, and a negative one first depletes
  \<open>temporaryHP\<close> down to 0. Both fail where the 64-bit arithmetic wraps around: healing the
  Hero (20 of 20 hit points) by 9223372036854775807 leaves a negative \<open>currentHP\<close> that the
  cap does not catch, and a \<open>delta\<close> of -9223372036854775808, whose magnitude is not an
  \<^verbatim>\<open>int\<close>, turns the wolf's five temporary hit points into a negative number.
\<close>

theorem AdjustHP_overflow:
  "sint (CurrentHP (Combatants (tracker (AdjustHP 1 9223372036854775807 duel_world)) ! 1))
     = - 9223372036854775789
   \<and> sint (CurrentHP (Combatants (tracker (AdjustHP 1 9223372036854775807 duel_world)) ! 1))
     \<noteq> min (sint (MaxHP hero)) (sint (CurrentHP hero) + 9223372036854775807)
   \<and> sint (TemporaryHP (Combatants (tracker (AdjustHP 0 (- 9223372036854775808) shielded_world)) ! 0))
     = - 9223372036854775803"
  by code_simp

text \<open>
  C3, amended: for every in-range index \<open>i\<close> and every \<open>delta\<close> other than the least
  \<^verbatim>\<open>int\<close> such that \<open>currentHP + delta\<close> is an \<^verbatim>\<open>int\<close>, \<^verbatim>\<open>AdjustHP(i, delta)\<close> with
  \<open>delta < 0\<close> first depletes a positive \<open>temporaryHP\<close> (down to 0) by the magnitude of
  \<open>delta\<close>, subtracts any remainder from \<open>currentHP\<close>, floors \<open>currentHP\<close> at 0, and sets
  \<open>isConscious\<close> to false when \<open>currentHP\<close> is 0 afterwards; with \<open>delta \<ge> 0\<close> it adds
  \<open>delta\<close> to \<open>currentHP\<close> capped at \<open>maxHP\<close>, and sets \<open>isConscious\<close> to true if
  \<open>currentHP\<close> is then positive. Nothing else of the combatant changes, and the operation
  ends with the auto-save.
\<close>

theorem AdjustHP_effect:
  assumes "\<not> bad_index index (Combatants (tracker w))"
    and "- 9223372036854775808 < sint amount"
    and "- 9223372036854775808 \<le> sint (CurrentHP (Combatants (tracker w) ! pos index)) + sint amount"
    and "sint (CurrentHP (Combatants (tracker w) ! pos index)) + sint amount < 9223372036854775808"
  shows "let c = Combatants (tracker w) ! pos index;
             c' = Combatants (tracker (AdjustHP index amount w)) ! pos index;
             d = - sint amount; t = sint (TemporaryHP c); h = sint (CurrentHP c)
         in AdjustHP index amount w =
              commit ((tracker w)\<lparr>Combatants := (Combatants (tracker w))[pos index := c']\<rparr>) w
          \<and> Name c' = Name c \<and> Initiative c' = Initiative c \<and> MaxHP c' = MaxHP c
          \<and> IsPlayer c' = IsPlayer c \<and> StatusEffects c' = StatusEffects c
          \<and> (sint amount < 0 \<longrightarrow>
                sint (TemporaryHP c') = (if 0 < t then max 0 (t - d) else t)
              \<and> sint (CurrentHP c') = max 0 (h - (if 0 < t then max 0 (d - t) else d))
              \<and> IsConscious c' = (IsConscious c \<and> 0 < sint (CurrentHP c')))
          \<and> (0 \<le> sint amount \<longrightarrow>
                TemporaryHP c' = TemporaryHP c
              \<and> sint (CurrentHP c') = min (sint (MaxHP c)) (h + sint amount)
              \<and> IsConscious c' = (IsConscious c \<or> 0 < sint (CurrentHP c')))"
proof -
  let ?c = "Combatants (tracker w) ! pos index"
  have w': "AdjustHP index amount w =
      commit ((tracker w)\<lparr>Combatants := (Combatants (tracker w))[pos index := adjust amount ?c]\<rparr>) w"
    using assms(1) by (simp add: AdjustHP_def Let_def)
  have c': "Combatants (tracker (AdjustHP index amount w)) ! pos index = adjust amount ?c"
    using assms(1) by (simp add: w' nth_adjusted)
  show ?thesis
  proof (cases "sint amount < 0")
    case True
    from adjust_damage [OF True assms(2) assms(3)]
    obtain e: "adjust amount ?c = ?c\<lparr>CurrentHP := CurrentHP (adjust amount ?c),
          IsConscious := IsConscious (adjust amount ?c), TemporaryHP := TemporaryHP (adjust amount ?c)\<rparr>"
      and p: "sint (TemporaryHP (adjust amount ?c)) =
             (if 0 < sint (TemporaryHP ?c) then max 0 (sint (TemporaryHP ?c) - (- sint amount))
              else sint (TemporaryHP ?c))"
        "sint (CurrentHP (adjust amount ?c)) =
             max 0 (sint (CurrentHP ?c) -
                    (if 0 < sint (TemporaryHP ?c) then max 0 (- sint amount - sint (TemporaryHP ?c))
                     else - sint amount))"
        "IsConscious (adjust amount ?c) = (IsConscious ?c \<and> 0 < sint (CurrentHP (adjust amount ?c)))"
      by blast
    have f: "Name (adjust amount ?c) = Name ?c" "Initiative (adjust amount ?c) = Initiative ?c"
      "MaxHP (adjust amount ?c) = MaxHP ?c" "IsPlayer (adjust amount ?c) = IsPlayer ?c"
      "StatusEffects (adjust amount ?c) = StatusEffects ?c"
      by (subst e, simp)+
    show ?thesis
      unfolding Let_def c' using True w' f p by simp
  next
    case False
    then have nn: "0 \<le> sint amount" by simp
    from adjust_heal [OF nn assms(4)]
    obtain e: "adjust amount ?c = ?c\<lparr>CurrentHP := CurrentHP (adjust amount ?c),
          IsConscious := IsConscious (adjust amount ?c)\<rparr>"
      and p: "sint (CurrentHP (adjust amount ?c)) = min (sint (MaxHP ?c)) (sint (CurrentHP ?c) + sint amount)"
        "IsConscious (adjust amount ?c) = (IsConscious ?c \<or> 0 < sint (CurrentHP (adjust amount ?c)))"
      by blast
    have f: "Name (adjust amount ?c) = Name ?c" "Initiative (adjust amount ?c) = Initiative ?c"
      "MaxHP (adjust amount ?c) = MaxHP ?c" "IsPlayer (adjust amount ?c) = IsPlayer ?c"
      "StatusEffects (adjust amount ?c) = StatusEffects ?c" "TemporaryHP (adjust amount ?c) = TemporaryHP ?c"
      by (subst e, simp)+
    show ?thesis
      unfolding Let_def c' using False w' f p by simp
  qed
qed

text \<open>The scenario of the specification: 25 points of damage to the Hero; and 30 points of
  healing once he has fallen.\<close>

theorem AdjustHP_effect_witness:
  "sint (CurrentHP (Combatants (tracker (AdjustHP 1 (- 25) duel_world)) ! pos 1)) = 0
   \<and> sint (TemporaryHP (Combatants (tracker (AdjustHP 1 (- 25) duel_world)) ! pos 1)) = 0
   \<and> \<not> IsConscious (Combatants (tracker (AdjustHP 1 (- 25) duel_world)) ! pos 1)
   \<and> sint (CurrentHP (Combatants (tracker (AdjustHP 1 30 fallen_world)) ! pos 1)) = 20
   \<and> IsConscious (Combatants (tracker (AdjustHP 1 30 fallen_world)) ! pos 1)"
proof -
  have c: "Combatants (tracker duel_world) ! pos 1 = hero"
    by code_simp
  have h1: "\<not> bad_index 1 (Combatants (tracker duel_world))"
    by code_simp
  have h2: "- 9223372036854775808 < sint (- 25 :: int64)"
    by simp
  have h3: "- 9223372036854775808
      \<le> sint (CurrentHP (Combatants (tracker duel_world) ! pos 1)) + sint (- 25 :: int64)"
    by (simp add: c hero_def)
  have h4: "sint (CurrentHP (Combatants (tracker duel_world) ! pos 1)) + sint (- 25 :: int64)
      < 9223372036854775808"
    by (simp add: c hero_def)
  have c': "Combatants (tracker fallen_world) ! pos 1 = hero\<lparr>CurrentHP := 0, IsConscious := False\<rparr>"
    by code_simp
  have g1: "\<not> bad_index 1 (Combatants (tracker fallen_world))"
    by code_simp
  have g2: "- 9223372036854775808 < sint (30 :: int64)"
    by simp
  have g3: "- 9223372036854775808
      \<le> sint (CurrentHP (Combatants (tracker fallen_world) ! pos 1)) + sint (30 :: int64)"
    by (simp add: c' hero_def)
  have g4: "sint (CurrentHP (Combatants (tracker fallen_world) ! pos 1)) + sint (30 :: int64)
      < 9223372036854775808"
    by (simp add: c' hero_def)
  from AdjustHP_effect [OF h1 h2 h3 h4] AdjustHP_effect [OF g1 g2 g3 g4] show ?thesis
    by (simp add: Let_def c c' hero_def)
qed

section \<open>Duplicating a combatant\<close>

text \<open>
  C4: the trailing number of "Orc12" is 12, and the copies are named "Orc13", "Orc14", ...
  The loop of \<^verbatim>\<open>DuplicateCombatant\<close> reads the digits from the last one backwards and
  appends each to the number read so far (\<^verbatim>\<open>lastNumber = lastNumber*10 + digit\<close>), so it
  reads "Orc12" as 21: two copies of "Orc12" are named "Orc22" and "Orc23".
\<close>

theorem duplicate_Orc12:
  "\<not> bad_index 0 (Combatants (tracker orc_world))
   \<and> scan_digits (rev ''Orc12'') 0 = 21
   \<and> map Name (Combatants (tracker (DuplicateCombatant 0 2 orc_world)))
       = [''Orc12'', ''Orc22'', ''Orc23'']"
  by code_simp

section \<open>Temporary hit points\<close>

text \<open>
  C5, as stated: \<^verbatim>\<open>SetTemporaryHP\<close> triggers an auto-save only when it replaces the value.
  The wolf has five temporary hit points and the tracker saves to "encounter.json";
  offering three leaves the tracker as it was, and the file is written again all the same.
\<close>

theorem AddTemporaryHP_unchanged_but_saved:
  "\<not> bad_index 0 (Combatants (tracker autosaving_world))
   \<and> tracker (AddTemporaryHP 0 3 autosaving_world) = tracker autosaving_world
   \<and> console (AddTemporaryHP 0 3 autosaving_world) = [Saved ''encounter.json'']
   \<and> disk (AddTemporaryHP 0 3 autosaving_world) ''encounter.json''
       \<noteq> disk autosaving_world ''encounter.json''"
proof -
  have b: "\<not> bad_index 0 (Combatants (tracker autosaving_world))"
    by code_simp
  have "AddTemporaryHP 0 3 autosaving_world = commit autosaving autosaving_world"
    unfolding AddTemporaryHP_commit [OF b]
    by (simp add: autosaving_world_def autosaving_def duel_def NewCombatTracker_def pos_def)
  then show ?thesis
    using b resave_differs by (simp add: resave_autosaving)
qed

text \<open>
  C5, amended: for every in-range index \<open>i\<close>, \<^verbatim>\<open>AddTemporaryHP(i, amount)\<close> replaces the
  combatant's \<open>temporaryHP\<close> with \<open>amount\<close> only when \<open>amount\<close> is strictly greater than the
  existing value and otherwise leaves the existing value unchanged; in both cases it ends
  with the auto-save, which writes the file whenever a save file is configured and writable.
\<close>

theorem AddTemporaryHP_effect:
  assumes "\<not> bad_index index (Combatants (tracker w))"
  shows "let c = Combatants (tracker w) ! pos index;
             w' = AddTemporaryHP index amount w
         in tracker w' =
              (tracker w)\<lparr>Combatants := (Combatants (tracker w))
                 [pos index := c\<lparr>TemporaryHP :=
                    (if sint amount > sint (TemporaryHP c) then amount else TemporaryHP c)\<rparr>]\<rparr>
          \<and> w' = AutoSave (w\<lparr>tracker := tracker w'\<rparr>)
          \<and> (SaveFilePath (tracker w) \<noteq> [] \<and> writable w (SaveFilePath (tracker w)) \<longrightarrow>
               console w' = console w @ [Saved (SaveFilePath (tracker w))])"
proof -
  let ?c = "Combatants (tracker w) ! pos index"
  let ?ct = "(tracker w)\<lparr>Combatants := (Combatants (tracker w))
                 [pos index := ?c\<lparr>TemporaryHP :=
                    (if sint amount > sint (TemporaryHP ?c) then amount else TemporaryHP ?c)\<rparr>]\<rparr>"
  have e: "AddTemporaryHP index amount w = commit ?ct w"
    using assms by (simp add: AddTemporaryHP_def Let_def)
  have s: "SaveFilePath ?ct = SaveFilePath (tracker w)"
    by simp
  have "SaveFilePath (tracker w) \<noteq> [] \<Longrightarrow> writable w (SaveFilePath (tracker w)) \<Longrightarrow>
      console (commit ?ct w) = console w @ [Saved (SaveFilePath (tracker w))]"
    using commit_saved [of ?ct w] by (simp only: s) simp
  then show ?thesis
    unfolding Let_def e by (simp add: commit_def)
qed

theorem AddTemporaryHP_effect_witness:
  "tracker (AddTemporaryHP 0 8 autosaving_world) =
     autosaving\<lparr>Combatants := [wolf\<lparr>TemporaryHP := 8\<rparr>, hero]\<rparr>
   \<and> console (AddTemporaryHP 0 8 autosaving_world) = [Saved ''encounter.json'']"
proof -
  have h: "\<not> bad_index 0 (Combatants (tracker autosaving_world))"
    by code_simp
  have c: "Combatants (tracker autosaving_world) ! pos 0 = wolf\<lparr>TemporaryHP := 5\<rparr>"
    by code_simp
  have t: "tracker autosaving_world = autosaving"
    by (simp add: autosaving_world_def)
  have p: "SaveFilePath autosaving = ''encounter.json''" "writable autosaving_world ''encounter.json''"
    "console autosaving_world = []" "pos 0 = 0"
    "Combatants autosaving = [wolf\<lparr>TemporaryHP := 5\<rparr>, hero]"
    by (simp_all add: autosaving_def autosaving_world_def pos_def)
  from AddTemporaryHP_effect [OF h, of 8] show ?thesis
    by (simp add: Let_def c t p)
qed

section \<open>A full round of turns\<close>

text \<open>
  C6, as stated: when combat is active, as many calls of \<^verbatim>\<open>NextTurn\<close> as there are
  combatants, starting from \<open>currentTurnIdx = 0\<close>, lead back to \<open>currentTurnIdx = 0\<close> with
  \<open>round\<close> incremented by exactly 1. The tracker loaded from \<^verbatim>\<open>ambush.json\<close> is active and
  has no combatants: no call is made and \<open>round\<close> stays 1, and a call of \<^verbatim>\<open>NextTurn\<close> does
  not increment anything but panics. In the tracker loaded from \<^verbatim>\<open>siege.json\<close> the one
  call takes \<open>round\<close> from 9223372036854775807 to -9223372036854775808.
\<close>

theorem NextTurn_round_not_incremented:
  "LoadFromFile ''ambush.json'' vault_world = Inr ambush
   \<and> IsActive ambush \<and> CurrentTurnIdx ambush = 0 \<and> length (Combatants ambush) = 0
   \<and> NextTurns (length (Combatants ambush)) (vault_world\<lparr>tracker := ambush\<rparr>)
       = Inr (vault_world\<lparr>tracker := ambush\<rparr>)
   \<and> NextTurn (vault_world\<lparr>tracker := ambush\<rparr>) = Inl IndexOutOfRange
   \<and> LoadFromFile ''siege.json'' vault_world = Inr siege
   \<and> IsActive siege \<and> CurrentTurnIdx siege = 0 \<and> length (Combatants siege) = 1
   \<and> sint (Round siege) = 9223372036854775807
   \<and> NextTurns (length (Combatants siege)) (vault_world\<lparr>tracker := siege\<rparr>)
       = Inr (commit (siege\<lparr>Round := - 9223372036854775808\<rparr>) (vault_world\<lparr>tracker := siege\<rparr>))
   \<and> sint (Round (siege\<lparr>Round := - 9223372036854775808\<rparr>)) = - 9223372036854775808"
proof -
  have a: "LoadFromFile ''ambush.json'' vault_world = Inr ambush"
    by (simp add: LoadFromFile_def vault_world_def ambush_payload_def ambush_def decode_defs
        del: foldName.simps)
  have s: "LoadFromFile ''siege.json'' vault_world = Inr siege"
    by (simp add: LoadFromFile_def vault_world_def siege_payload_def siege_def wizard_def
        decode_defs del: foldName.simps)
  have f: "IsActive ambush" "CurrentTurnIdx ambush = 0" "length (Combatants ambush) = 0"
    by (simp_all add: ambush_def)
  have g: "IsActive siege" "CurrentTurnIdx siege = 0" "length (Combatants siege) = 1"
    "sint (Round siege) = 9223372036854775807"
    "sint (Round (siege\<lparr>Round := - 9223372036854775808\<rparr>)) = - 9223372036854775808"
    by (simp_all add: siege_def)
  have e: "NextTurns (length (Combatants ambush)) (vault_world\<lparr>tracker := ambush\<rparr>)
      = Inr (vault_world\<lparr>tracker := ambush\<rparr>)"
    by (simp add: f)
  have p: "NextTurn (vault_world\<lparr>tracker := ambush\<rparr>) = Inl IndexOutOfRange"
    by (simp add: NextTurn_def Let_def f bad_index_def)
  have m: "Round siege + 1 = - 9223372036854775808"
    by (simp add: siege_def)
  have "NextTurn (vault_world\<lparr>tracker := siege\<rparr>)
      = Inr (commit ((tracker (vault_world\<lparr>tracker := siege\<rparr>))
               \<lparr>Round := Round (tracker (vault_world\<lparr>tracker := siege\<rparr>)) + 1, CurrentTurnIdx := 0\<rparr>)
             (vault_world\<lparr>tracker := siege\<rparr>))"
    by (rule NextTurn_wrap) (simp_all add: g, simp add: siege_def)
  then have "NextTurn (vault_world\<lparr>tracker := siege\<rparr>)
      = Inr (commit (siege\<lparr>Round := - 9223372036854775808\<rparr>) (vault_world\<lparr>tracker := siege\<rparr>))"
    using g(2) by (simp add: m) (simp add: siege_def)
  then have n: "NextTurns (length (Combatants siege)) (vault_world\<lparr>tracker := siege\<rparr>)
      = Inr (commit (siege\<lparr>Round := - 9223372036854775808\<rparr>) (vault_world\<lparr>tracker := siege\<rparr>))"
    by (simp add: g(3))
  show ?thesis
    by (intro conjI) (fact a s f g e p n)+
qed

text \<open>
  C6, amended: when combat is active, \<open>currentTurnIdx\<close> points into the roster
  (\<open>0 \<le> currentTurnIdx < len(combatants)\<close>, as in every state that the operations reach
  from a fresh tracker, \<open>engine_reachable_turn_ok\<close>) and \<open>round\<close> is less than
  9223372036854775807, each \<^verbatim>\<open>NextTurn\<close> increments \<open>currentTurnIdx\<close> and, when it reaches
  the length of the roster, sets it back to 0 and increments \<open>round\<close>, neither increment
  wrapping around; so, starting from \<open>currentTurnIdx = 0\<close>, as many calls as there are
  combatants lead back to \<open>currentTurnIdx = 0\<close> with \<open>round\<close> incremented by exactly 1, and
  nothing else in the tracker changed.
\<close>

theorem NextTurn_full_round:
  assumes active: "IsActive (tracker w)"
    and ok: "turn_ok (tracker w)"
    and round: "sint (Round (tracker w)) < 9223372036854775807"
  shows "NextTurn w =
           Inr (commit
             (if sint (CurrentTurnIdx (tracker w)) + 1 = int (length (Combatants (tracker w)))
              then (tracker w)\<lparr>Round := Round (tracker w) + 1, CurrentTurnIdx := 0\<rparr>
              else (tracker w)\<lparr>CurrentTurnIdx := CurrentTurnIdx (tracker w) + 1\<rparr>) w)
       \<and> sint (CurrentTurnIdx (tracker w) + 1) = sint (CurrentTurnIdx (tracker w)) + 1
       \<and> sint (Round (tracker w) + 1) = sint (Round (tracker w)) + 1
       \<and> (CurrentTurnIdx (tracker w) = 0 \<longrightarrow>
            (\<exists>w'. NextTurns (length (Combatants (tracker w))) w = Inr w'
                 \<and> tracker w' = (tracker w)\<lparr>Round := Round (tracker w) + 1\<rparr>))"
proof (intro conjI impI)
  have b: "\<not> bad_index (CurrentTurnIdx (tracker w)) (Combatants (tracker w))"
    using active ok by (simp add: turn_ok_def)
  then have "Combatants (tracker w) \<noteq> []"
    by (auto simp add: bad_index_def)
  note assms = active this ok [unfolded turn_ok_def, THEN conjunct1]
  show "NextTurn w =
      Inr (commit
        (if sint (CurrentTurnIdx (tracker w)) + 1 = int (length (Combatants (tracker w)))
         then (tracker w)\<lparr>Round := Round (tracker w) + 1, CurrentTurnIdx := 0\<rparr>
         else (tracker w)\<lparr>CurrentTurnIdx := CurrentTurnIdx (tracker w) + 1\<rparr>) w)"
  proof (cases "sint (CurrentTurnIdx (tracker w)) + 1 = int (length (Combatants (tracker w)))")
    case True
    then show ?thesis
      using assms NextTurn_wrap [of w] by simp
  next
    case False
    then show ?thesis
      using assms b NextTurn_climb [of w] by (simp add: bad_index_def)
  qed
  have "sint (CurrentTurnIdx (tracker w)) < int (length (Combatants (tracker w)))"
    using b by (simp add: bad_index_def)
  then show "sint (CurrentTurnIdx (tracker w) + 1) = sint (CurrentTurnIdx (tracker w)) + 1"
    using assms(3) by (intro sint64_succ) simp
next
  show "sint (Round (tracker w) + 1) = sint (Round (tracker w)) + 1"
    using round by (rule sint64_succ)
next
  assume z: "CurrentTurnIdx (tracker w) = 0"
  have "Combatants (tracker w) \<noteq> []"
    using active ok by (auto simp add: turn_ok_def bad_index_def)
  note assms = active this ok [unfolded turn_ok_def, THEN conjunct1]
  define n where "n = length (Combatants (tracker w)) - 1"
  have l: "length (Combatants (tracker w)) = n + 1"
    using assms(2) by (simp add: n_def)
  have "\<exists>v. NextTurns n w = Inr v \<and> tracker v = (tracker w)\<lparr>CurrentTurnIdx := word_of_nat (0 + n)\<rparr>"
    using assms z l by (intro NextTurns_climb) simp_all
  then obtain v where v: "NextTurns n w = Inr v"
    and t: "tracker v = (tracker w)\<lparr>CurrentTurnIdx := word_of_nat n\<rparr>"
    by auto
  have "sint (word_of_nat n :: int64) = int n"
    using assms(3) l by (intro sint64_of_nat) simp
  then have "NextTurn v =
      Inr (commit ((tracker v)\<lparr>Round := Round (tracker v) + 1, CurrentTurnIdx := 0\<rparr>) v)"
    using assms t l by (intro NextTurn_wrap) simp_all
  then have "NextTurns (Suc n) w =
      Inr (commit ((tracker v)\<lparr>Round := Round (tracker v) + 1, CurrentTurnIdx := 0\<rparr>) v)"
    using v by (intro NextTurns_snoc)
  moreover have "(tracker v)\<lparr>Round := Round (tracker v) + 1, CurrentTurnIdx := 0\<rparr>
      = (tracker w)\<lparr>Round := Round (tracker w) + 1\<rparr>"
    using t z by simp
  ultimately show "\<exists>w'. NextTurns (length (Combatants (tracker w))) w = Inr w'
      \<and> tracker w' = (tracker w)\<lparr>Round := Round (tracker w) + 1\<rparr>"
    using l by simp
qed

text \<open>The scenario of the specification: the Wolf's turn, then the Hero's, then round 2.\<close>

theorem NextTurn_full_round_witness:
  "NextTurn duel_world = Inr (duel_world\<lparr>tracker := duel\<lparr>CurrentTurnIdx := 1\<rparr>\<rparr>)
   \<and> NextTurns 2 duel_world = Inr (duel_world\<lparr>tracker := duel\<lparr>Round := 2\<rparr>\<rparr>)"
proof -
  have a: "IsActive (tracker duel_world)" and k: "turn_ok (tracker duel_world)"
    and z: "CurrentTurnIdx (tracker duel_world) = 0"
    and m: "sint (Round (tracker duel_world)) < 9223372036854775807"
    by (simp_all add: duel_world_def duel_def turn_ok_def bad_index_def)
  have p: "tracker duel_world = duel" "length (Combatants duel) = 2" "Round duel = 1"
    "CurrentTurnIdx duel = 0" "SaveFilePath duel = []"
    by (simp_all add: duel_world_def duel_def NewCombatTracker_def)
  from NextTurn_full_round [OF a k m] z
  have f: "NextTurn duel_world = Inr (commit (duel\<lparr>CurrentTurnIdx := 1\<rparr>) duel_world)"
    and "\<exists>w'. NextTurns 2 duel_world = Inr w' \<and> tracker w' = duel\<lparr>Round := 2\<rparr>"
    by (simp_all add: p)
  then obtain w' where r: "NextTurns 2 duel_world = Inr w'" and t: "tracker w' = duel\<lparr>Round := 2\<rparr>"
    by auto
  have s: "NextTurns 2 duel_world =
      (case NextTurn duel_world of Inl p \<Rightarrow> Inl p
       | Inr v \<Rightarrow> (case NextTurn v of Inl p \<Rightarrow> Inl p | Inr v' \<Rightarrow> Inr v'))"
    by (simp add: numeral_2_eq_2 split: sum.splits)
  have c: "commit (duel\<lparr>CurrentTurnIdx := 1\<rparr>) duel_world = duel_world\<lparr>tracker := duel\<lparr>CurrentTurnIdx := 1\<rparr>\<rparr>"
    by (simp add: commit_no_path p)
  have "w' = duel_world\<lparr>tracker := tracker w'\<rparr>"
    using r unfolding s f c
    by (auto simp add: NextTurn_def Let_def commit_no_path p duel_def NewCombatTracker_def
        bad_index_def split: if_splits)
  then show ?thesis
    using f r t by (simp add: c)
qed

section \<open>Refused operations\<close>

text \<open>
  C7: an operation that is refused prints its report and changes nothing else, neither the
  tracker nor any file (there is no auto-save). The operations refuse an index outside
  \<open>[0, len(combatants))\<close>, \<^verbatim>\<open>StartCombat\<close> refuses an empty roster, \<^verbatim>\<open>NextTurn\<close> and
  \<^verbatim>\<open>EndCombat\<close> refuse when combat is not active. The number of copies is tested where it
  is read, in \<^verbatim>\<open>handleDuplicateCombatant\<close>, the one caller of \<^verbatim>\<open>DuplicateCombatant\<close>: below
  1, the handler prints its report and returns without the call; it does the same with
  the report of \<^verbatim>\<open>getCurrentOrSelectedIndex\<close> on the number of the combatant.
\<close>

theorem refused_operations:
  "(bad_index index (Combatants (tracker w)) \<longrightarrow>
      AdjustHP index amount w = w\<lparr>console := console w @ [InvalidIndex]\<rparr>
    \<and> AddTemporaryHP index amount w = w\<lparr>console := console w @ [InvalidIndex]\<rparr>
    \<and> AddStatusEffect index effect w = w\<lparr>console := console w @ [InvalidIndex]\<rparr>
    \<and> RemoveStatusEffect index effect w = w\<lparr>console := console w @ [InvalidIndex]\<rparr>
    \<and> DuplicateCombatant index count_n w = w\<lparr>console := console w @ [InvalidIndex]\<rparr>
    \<and> ChangeInitiative srt index newInitiative w = w\<lparr>console := console w @ [InvalidIndex]\<rparr>)
   \<and> (Combatants (tracker w) = [] \<longrightarrow>
        StartCombat srt w = Inr (w\<lparr>console := console w @ [NoCombatants]\<rparr>))
   \<and> (\<not> IsActive (tracker w) \<longrightarrow>
        NextTurn w = Inr (w\<lparr>console := console w @ [NotStarted]\<rparr>)
      \<and> EndCombat w = w\<lparr>console := console w @ [NoActiveCombat]\<rparr>)
   \<and> (getCurrentOrSelectedIndex (tracker w) indexStr = Inr (Inr selected)
        \<and> Atoi countStr = Some copies \<and> sint copies < 1 \<longrightarrow>
        handleDuplicateCombatant indexStr countStr w
          = Inr (w\<lparr>console := console w @ [InvalidNumberOfCopies]\<rparr>))
   \<and> (getCurrentOrSelectedIndex (tracker w) indexStr = Inr (Inl report) \<longrightarrow>
        handleDuplicateCombatant indexStr countStr w = Inr (w\<lparr>console := console w @ [report]\<rparr>))"
  by (simp add: AdjustHP_def AddTemporaryHP_def AddStatusEffect_def RemoveStatusEffect_def
      DuplicateCombatant_def ChangeInitiative_def StartCombat_def NextTurn_def EndCombat_def
      handleDuplicateCombatant_def say_def Let_def)

text \<open>
  A fresh tracker refuses everything. The last two lines are typed while the encounter of
  Wolf and Hero is saved to \<^verbatim>\<open>encounter.json\<close> after every change: 0 copies of
  combatant 1, and 3 copies of combatant 7.
\<close>

theorem refused_operations_witness:
  "AdjustHP 0 (- 3) fresh_world = fresh_world\<lparr>console := [InvalidIndex]\<rparr>
   \<and> DuplicateCombatant 0 2 fresh_world = fresh_world\<lparr>console := [InvalidIndex]\<rparr>
   \<and> StartCombat insertionSort fresh_world = Inr (fresh_world\<lparr>console := [NoCombatants]\<rparr>)
   \<and> NextTurn fresh_world = Inr (fresh_world\<lparr>console := [NotStarted]\<rparr>)
   \<and> EndCombat fresh_world = fresh_world\<lparr>console := [NoActiveCombat]\<rparr>
   \<and> handleDuplicateCombatant ''1'' ''0'' autosaving_world
       = Inr (autosaving_world\<lparr>console := [InvalidNumberOfCopies]\<rparr>)
   \<and> handleDuplicateCombatant ''7'' ''3'' autosaving_world
       = Inr (autosaving_world\<lparr>console := [InvalidCombatantIndex]\<rparr>)"
proof -
  have b: "bad_index 0 (Combatants (tracker fresh_world))"
    by code_simp
  have e: "Combatants (tracker fresh_world) = []"
    by code_simp
  have i: "\<not> IsActive (tracker fresh_world)"
    by code_simp
  have c: "console fresh_world = []" "console autosaving_world = []"
    by (simp_all add: fresh_world_def autosaving_world_def)
  have g: "getCurrentOrSelectedIndex (tracker autosaving_world) ''1'' = Inr (Inr 0)"
    "Atoi ''0'' = Some 0" "sint (0 :: int64) < 1"
    "getCurrentOrSelectedIndex (tracker autosaving_world) ''7'' = Inr (Inl InvalidCombatantIndex)"
    by code_simp+
  from refused_operations [of 0 fresh_world "- 3" _ 2 insertionSort]
    refused_operations [where w = autosaving_world and indexStr = "''1''" and selected = 0
      and countStr = "''0''" and copies = 0]
    refused_operations [where w = autosaving_world and indexStr = "''7''"
      and report = InvalidCombatantIndex and countStr = "''3''"]
  show ?thesis
    using b e i g by (simp add: c)
qed

section \<open>The default catalog\<close>

text \<open>
  C8, as stated: a fresh tracker's catalog is exactly the fourteen names Blinded to
  Unconscious. It is not: the list in \<^verbatim>\<open>NewCombatTracker\<close> has a fifteenth entry.
\<close>

theorem fresh_catalog_not_fourteen:
  "TrackerStatusEffects NewCombatTracker \<noteq>
     [''Blinded'', ''Charmed'', ''Deafened'', ''Frightened'', ''Grappled'', ''Incapacitated'',
      ''Invisible'', ''Paralyzed'', ''Petrified'', ''Poisoned'', ''Prone'', ''Restrained'',
      ''Stunned'', ''Unconscious'']"
  by (simp add: NewCombatTracker_def defaultEffects_def)

text \<open>
  C8, amended: the catalog of a fresh tracker is the fourteen names followed by
  "Custom Status Effect", and a file that decodes with an empty catalog is loaded with
  that same list of fifteen.
\<close>

theorem default_catalog:
  assumes "disk w filename = Some data"
    and "Unmarshal_SaveState data = Some st"
    and "TrackerStatusEffects (SaveStateTracker st) = []"
  shows "TrackerStatusEffects NewCombatTracker =
           [''Blinded'', ''Charmed'', ''Deafened'', ''Frightened'', ''Grappled'',
            ''Incapacitated'', ''Invisible'', ''Paralyzed'', ''Petrified'', ''Poisoned'',
            ''Prone'', ''Restrained'', ''Stunned'', ''Unconscious'', ''Custom Status Effect'']
         \<and> LoadFromFile filename w =
             Inr ((SaveStateTracker st)\<lparr>SaveFilePath := filename,
                    TrackerStatusEffects := TrackerStatusEffects NewCombatTracker\<rparr>)"
  using assms by (simp add: LoadFromFile_def NewCombatTracker_def defaultEffects_def)

theorem default_catalog_witness:
  "LoadFromFile ''old.json'' old_world =
     Inr \<lparr>Combatants = [wizard], Round = 2, CurrentTurnIdx = 0, IsActive = True,
          CampaignName = ''Lost Mine of Phandelver'', EncounterName = ''Goblin Ambush'',
          SaveFilePath = ''old.json'',
          TrackerStatusEffects =
            [''Blinded'', ''Charmed'', ''Deafened'', ''Frightened'', ''Grappled'',
             ''Incapacitated'', ''Invisible'', ''Paralyzed'', ''Petrified'', ''Poisoned'',
             ''Prone'', ''Restrained'', ''Stunned'', ''Unconscious'', ''Custom Status Effect'']\<rparr>"
proof -
  have d: "disk old_world ''old.json'' = Some old_payload"
    by (simp add: old_world_def)
  have u: "Unmarshal_SaveState old_payload = Some old_state"
    by (simp add: decode_defs old_payload_def old_state_def wizard_def del: foldName.simps)
  have e: "TrackerStatusEffects (SaveStateTracker old_state) = []"
    by (simp add: old_state_def)
  show ?thesis
    using default_catalog [OF d u e] by (simp add: old_state_def)
qed
section \<open>The bounds on current hit points\<close>

text \<open>
  C9, as stated: after \<^verbatim>\<open>AddCombatant\<close> and after every \<^verbatim>\<open>AdjustHP\<close>, for arbitrary
  accepted inputs including a negative \<open>maxHP\<close>, every combatant has
  \<open>0 \<le> currentHP \<le> maxHP\<close>. A combatant added with \<open>maxHP = -5\<close> starts with
  \<open>currentHP = -5\<close>; and healing the Hero by 9223372036854775807 wraps his \<open>currentHP\<close>
  around to a negative number.
\<close>

theorem hp_bounds_broken:
  "\<not> list_all hp_ok (Combatants (tracker (AddCombatant ''Imp'' 3 (- 5) False fresh_world)))
   \<and> sint (CurrentHP (last (Combatants (tracker (AddCombatant ''Imp'' 3 (- 5) False fresh_world))))) = - 5
   \<and> list_all hp_ok (Combatants (tracker duel_world))
   \<and> \<not> list_all hp_ok (Combatants (tracker (AdjustHP 1 9223372036854775807 duel_world)))"
  by code_simp

text \<open>
  C9, amended: if every combatant has \<open>0 \<le> currentHP \<le> maxHP\<close>, then so has every
  combatant after \<^verbatim>\<open>AddCombatant\<close> with \<open>maxHP \<ge> 0\<close>, after \<^verbatim>\<open>AdjustHP\<close> with any
  \<open>delta\<close> such that, when it is non-negative and the index is in range, \<open>currentHP + delta\<close> is
  an \<^verbatim>\<open>int\<close>, and after \<^verbatim>\<open>DuplicateCombatant\<close>.
\<close>

theorem hp_bounds_kept:
  assumes "list_all hp_ok (Combatants (tracker w))"
  shows "(0 \<le> sint maxHP \<longrightarrow>
            list_all hp_ok (Combatants (tracker (AddCombatant name initiative maxHP isPlayer w))))
       \<and> ((\<not> bad_index index (Combatants (tracker w)) \<and> 0 \<le> sint amount \<longrightarrow>
             sint (CurrentHP (Combatants (tracker w) ! pos index)) + sint amount
               < 9223372036854775808) \<longrightarrow>
            list_all hp_ok (Combatants (tracker (AdjustHP index amount w))))
       \<and> list_all hp_ok (Combatants (tracker (DuplicateCombatant index count_n w)))"
proof (intro conjI impI)
  assume "0 \<le> sint maxHP"
  then show "list_all hp_ok (Combatants (tracker (AddCombatant name initiative maxHP isPlayer w)))"
    using assms by (simp add: AddCombatant_def hp_ok_def)
next
  assume h: "\<not> bad_index index (Combatants (tracker w)) \<and> 0 \<le> sint amount \<longrightarrow>
             sint (CurrentHP (Combatants (tracker w) ! pos index)) + sint amount
               < 9223372036854775808"
  show "list_all hp_ok (Combatants (tracker (AdjustHP index amount w)))"
  proof (cases "bad_index index (Combatants (tracker w))")
    case True
    then show ?thesis using assms by (simp add: AdjustHP_def)
  next
    case False
    then have "hp_ok (Combatants (tracker w) ! pos index)"
      using assms pos_less [OF False] by (simp add: list_all_length)
    then have "hp_ok (adjust amount (Combatants (tracker w) ! pos index))"
      using h False by (intro adjust_hp_ok) auto
    then show ?thesis
      using False assms by (simp add: AdjustHP_def Let_def list_all_update)
  qed
next
  show "list_all hp_ok (Combatants (tracker (DuplicateCombatant index count_n w)))"
  proof (cases "bad_index index (Combatants (tracker w))")
    case True
    then show ?thesis using assms by (simp add: DuplicateCombatant_def)
  next
    case False
    then have "hp_ok (Combatants (tracker w) ! pos index)"
      using assms pos_less [OF False] by (simp add: list_all_length)
    then show ?thesis
      using False assms by (auto simp add: DuplicateCombatant_def Let_def list_all_iff hp_ok_def)
  qed
qed

theorem hp_bounds_kept_witness:
  "list_all hp_ok (Combatants (tracker (AddCombatant ''Imp'' 3 7 False duel_world)))
   \<and> list_all hp_ok (Combatants (tracker (AdjustHP 1 5 duel_world)))
   \<and> list_all hp_ok (Combatants (tracker (DuplicateCombatant 1 2 duel_world)))"
proof -
  have h: "list_all hp_ok (Combatants (tracker duel_world))"
    by code_simp
  have c: "Combatants (tracker duel_world) ! pos 1 = hero"
    by code_simp
  from hp_bounds_kept [OF h, where maxHP = 7 and name = "''Imp''" and initiative = 3
      and isPlayer = False and index = 1 and amount = 5 and count_n = 2] show ?thesis
    by (simp add: c hero_def)
qed

section \<open>The turn index is always in range\<close>

text \<open>
  C10: in every state that the operations of the tracker reach from a fresh tracker, an
  active combat has a non-empty roster and a turn index inside it, so neither
  \<^verbatim>\<open>NextTurn\<close> nor \<^verbatim>\<open>StartCombat\<close> (with any sort that keeps the promise of
  \<^verbatim>\<open>sort.Slice\<close>) ever reads \<^verbatim>\<open>ct.Combatants[ct.CurrentTurnIdx]\<close> out of range.
\<close>

theorem active_roster_nonempty:
  assumes "engine_reachable w"
  shows "(IsActive (tracker w) \<longrightarrow>
            Combatants (tracker w) \<noteq> []
          \<and> \<not> bad_index (CurrentTurnIdx (tracker w)) (Combatants (tracker w)))
       \<and> NextTurn w \<noteq> Inl IndexOutOfRange
       \<and> (\<forall>srt. sort_Slice_ok srt \<longrightarrow> StartCombat srt w \<noteq> Inl IndexOutOfRange)"
proof -
  have t: "turn_ok (tracker w)"
    using assms by (rule engine_reachable_turn_ok)
  then have "IsActive (tracker w) \<longrightarrow>
      Combatants (tracker w) \<noteq> []
    \<and> \<not> bad_index (CurrentTurnIdx (tracker w)) (Combatants (tracker w))"
    by (auto simp add: turn_ok_def bad_index_def)
  then show ?thesis
    using NextTurn_no_panic [OF t] StartCombat_no_panic by simp
qed

text \<open>The scenario of the specification, reached by two \<^verbatim>\<open>AddCombatant\<close> and a
  \<^verbatim>\<open>StartCombat\<close>.\<close>

theorem active_roster_nonempty_witness:
  "engine_reachable duel_world
   \<and> IsActive (tracker duel_world)
   \<and> Combatants (tracker duel_world) \<noteq> []
   \<and> \<not> bad_index (CurrentTurnIdx (tracker duel_world)) (Combatants (tracker duel_world))
   \<and> NextTurn duel_world \<noteq> Inl IndexOutOfRange
   \<and> StartCombat insertionSort duel_world \<noteq> Inl IndexOutOfRange"
proof -
  have r: "engine_reachable duel_world"
    by (rule duel_reachable)
  have a: "IsActive (tracker duel_world)"
    by (simp add: duel_world_def duel_def)
  from active_roster_nonempty [OF r] show ?thesis
    using r a insertionSort_ok by simp
qed

end
